theory Spec2Isabelle
  imports Main "HOL-Library.Sublist"
begin

section \<open>Python values and dictionaries\<close>

text \<open>
  The values that travel through the session state and the message payloads are JSON-like
  Python values: \<open>None\<close>, booleans, integers, strings, lists and dictionaries with
  string keys.
\<close>

datatype pyval =
    PNone
  | PBool bool
  | PInt int
  | PStr string
  | PList "pyval list"
  | PDict "(string \<times> pyval) list"

text \<open>Python truthiness, as \<open>if x:\<close> and \<open>not x\<close> test it.\<close>

fun truthy :: "pyval \<Rightarrow> bool" where
  "truthy PNone = False"
| "truthy (PBool b) = b"
| "truthy (PInt i) = (i \<noteq> 0)"
| "truthy (PStr s) = (s \<noteq> [])"
| "truthy (PList xs) = (xs \<noteq> [])"
| "truthy (PDict kvs) = (kvs \<noteq> [])"

text \<open>
  A Python \<open>dict\<close> keeps its keys in insertion order: an association list with distinct
  keys. \<open>d[k] = v\<close> replaces the value of a key that is present, in place, and appends
  a key that is absent.
\<close>

type_synonym ('k, 'v) dict = "('k \<times> 'v) list"

fun dict_set :: "('k, 'v) dict \<Rightarrow> 'k \<Rightarrow> 'v \<Rightarrow> ('k, 'v) dict" where
  "dict_set [] k v = [(k, v)]"
| "dict_set ((k', v') # d) k v =
     (if k' = k then (k', v) # d else (k', v') # dict_set d k v)"

definition dict_get :: "('k, 'v) dict \<Rightarrow> 'k \<Rightarrow> 'v option" where
  "dict_get d k = map_of d k"

definition dict_keys :: "('k, 'v) dict \<Rightarrow> 'k list" where
  "dict_keys d = map fst d"

definition dict_values :: "('k, 'v) dict \<Rightarrow> 'v list" where
  "dict_values d = map snd d"

text \<open>\<open>k in d\<close>\<close>

definition dict_in :: "'k \<Rightarrow> ('k, 'v) dict \<Rightarrow> bool" where
  "dict_in k d = (k \<in> set (dict_keys d))"

text \<open>\<open>d.get(k, default)\<close>\<close>

definition dict_get_default :: "('k, 'v) dict \<Rightarrow> 'k \<Rightarrow> 'v \<Rightarrow> 'v" where
  "dict_get_default d k dflt = (case dict_get d k of Some v \<Rightarrow> v | None \<Rightarrow> dflt)"

text \<open>\<open>sep.join(xs)\<close>\<close>

fun join :: "string \<Rightarrow> string list \<Rightarrow> string" where
  "join sep [] = []"
| "join sep [x] = x"
| "join sep (x # y # ys) = x @ sep @ join sep (y # ys)"

section \<open>agent.py: the message payload\<close>

text \<open>
  \<open>create_send_message_payload(text, task_id=None, context_id=None)\<close>. The fourth
  argument is the value of \<open>uuid.uuid4().hex\<close> at the call.
\<close>

definition create_send_message_payload ::
  "pyval \<Rightarrow> pyval \<Rightarrow> pyval \<Rightarrow> string \<Rightarrow> (string, pyval) dict" where
  "create_send_message_payload text task_id context_id uuid_hex =
     (let message =
            [(''role'', PStr ''user''),
             (''parts'', PList [PDict [(''type'', PStr ''text''), (''text'', text)]]),
             (''messageId'', PStr uuid_hex)];
          message = (if truthy task_id then dict_set message ''taskId'' task_id else message);
          message =
            (if truthy context_id then dict_set message ''contextId'' context_id else message)
      in [(''message'', PDict message)])"

section \<open>Exceptions and output\<close>

text \<open>
  Exceptions are values. \<open>ValueError\<close>, \<open>TypeError\<close> and \<open>KeyError\<close> are the ones the
  code of this repository raises itself (a \<open>raise\<close> statement, or an operation of the
  interpreter on a value of the session state). An exception raised inside a call to a
  library (httpx, a2a, pydantic, the ADK runner) or delivered by the event loop at an
  \<open>await\<close> is a \<open>lib_exn\<close>: \<open>httpx.ConnectError\<close>, an instance of a
  subclass of \<open>ValueError\<close> (pydantic's \<open>ValidationError\<close>,
  \<open>json.JSONDecodeError\<close>), another instance of \<open>Exception\<close>, or an
  exception that derives from \<open>BaseException\<close> only
  (\<open>asyncio.CancelledError\<close>, \<open>KeyboardInterrupt\<close>, \<open>SystemExit\<close>), which
  \<open>except Exception\<close> does not catch. The last three carry the name of the class
  and the message.
\<close>

datatype lib_exn =
    ConnectError string
  | LibValueError string string
  | LibException string string
  | LibBaseException string string

datatype exn =
    ValueError string
  | TypeError string
  | KeyError string
  | Lib lib_exn

fun isinstance_ConnectError :: "exn \<Rightarrow> bool" where
  "isinstance_ConnectError (Lib (ConnectError m)) = True"
| "isinstance_ConnectError e = False"

fun isinstance_Exception :: "exn \<Rightarrow> bool" where
  "isinstance_Exception (Lib (LibBaseException c m)) = False"
| "isinstance_Exception e = True"

text \<open>
  \<open>isinstance(e, ValueError)\<close>: the \<open>ValueError\<close> that the code raises and
  the library exceptions that derive from it.
\<close>

fun isinstance_ValueError :: "exn \<Rightarrow> bool" where
  "isinstance_ValueError (ValueError m) = True"
| "isinstance_ValueError (Lib (LibValueError c m)) = True"
| "isinstance_ValueError e = False"

text \<open>
  \<open>str(e)\<close> and \<open>type(e)\<close> as an f-string renders them. A \<open>KeyError\<close>
  holds the missing key, and its \<open>str\<close> is the \<open>repr\<close> of the key: the key
  between single quotes (for a key that needs no escape).
\<close>

fun exn_str :: "exn \<Rightarrow> string" where
  "exn_str (ValueError m) = m"
| "exn_str (TypeError m) = m"
| "exn_str (KeyError k) = [CHR 0x27] @ k @ [CHR 0x27]"
| "exn_str (Lib (ConnectError m)) = m"
| "exn_str (Lib (LibValueError c m)) = m"
| "exn_str (Lib (LibException c m)) = m"
| "exn_str (Lib (LibBaseException c m)) = m"

fun exn_class :: "exn \<Rightarrow> string" where
  "exn_class (ValueError m) = ''ValueError''"
| "exn_class (TypeError m) = ''TypeError''"
| "exn_class (KeyError m) = ''KeyError''"
| "exn_class (Lib (ConnectError m)) = ''httpx.ConnectError''"
| "exn_class (Lib (LibValueError c m)) = c"
| "exn_class (Lib (LibException c m)) = c"
| "exn_class (Lib (LibBaseException c m)) = c"

definition type_str :: "exn \<Rightarrow> string" where
  "type_str e = ''<class '' @ [CHR 0x27] @ exn_class e @ [CHR 0x27] @ ''>''"

text \<open>
  What the program writes: one entry for each call of \<open>print\<close>, holding its arguments,
  and one for each call of \<open>traceback.print_exc()\<close>.
\<close>

datatype printed = Print "pyval list" | PrintExc exn

section \<open>agent.py: the host agent and its bootstrap\<close>

text \<open>The two fields of an \<open>a2a.types.AgentCard\<close> that the code reads.\<close>

record AgentCard =
  name :: string
  description :: string

text \<open>
  Modelled from the spec: the class \<open>RemoteAgentConnections\<close>
  (\<open>travel_concierge/remote_agent_connection.py\<close>) is not among the sources. The spec
  and the caller give its constructor, \<open>RemoteAgentConnections(card, address)\<close> (step
  "construct client" of the bootstrap), and its method \<open>send_message\<close>. An instance is the
  card and the address it was built from; as an instance of a class it is truthy, so
  \<open>not client\<close> is false for it.
\<close>

record RemoteAgentConnections =
  conn_card :: AgentCard
  conn_address :: string

definition truthy_conn :: "RemoteAgentConnections \<Rightarrow> bool" where
  "truthy_conn client = True"

text \<open>
  The fields of \<open>TravelHostAgent\<close> that its methods read or write. (\<open>task_callback\<close>
  and \<open>agent\<close> are stored by \<open>__init__\<close> and read nowhere.)
\<close>

record TravelHostAgent =
  remote_agent_connections :: "(string, RemoteAgentConnections) dict"
  cards :: "(string, AgentCard) dict"
  agents :: string

text \<open>\<open>TravelHostAgent.__init__\<close>\<close>

definition TravelHostAgent_init :: TravelHostAgent where
  "TravelHostAgent_init = \<lparr>remote_agent_connections = [], cards = [], agents = []\<rparr>"

text \<open>
  The body of the loop of \<open>_async_init_components\<close> for one address (lines 99 to 109).
  \<open>get_agent_card\<close> is what \<open>A2ACardResolver(client, address).get_agent_card()\<close> does
  for an address: it returns a card or raises. The result is the exception that leaves the
  \<open>try\<close> statement, if any, with the agent and the output.
\<close>

definition async_init_address ::
  "(string \<Rightarrow> lib_exn + AgentCard) \<Rightarrow> string \<Rightarrow> TravelHostAgent \<times> printed list
   \<Rightarrow> exn option \<times> TravelHostAgent \<times> printed list" where
  "async_init_address get_agent_card address s =
     (case s of (self, out) \<Rightarrow>
       (case get_agent_card address of
          Inr agent_card \<Rightarrow>
            (let remote_conn = \<lparr>conn_card = agent_card, conn_address = address\<rparr>;
                 self = self\<lparr>remote_agent_connections :=
                          dict_set (remote_agent_connections self) (name agent_card) remote_conn\<rparr>;
                 self = self\<lparr>cards := dict_set (cards self) (name agent_card) agent_card\<rparr>
             in (None, self, out))
        | Inl e \<Rightarrow>
            (if isinstance_ConnectError (Lib e) then
               (None, self, out @ [Print [PStr (''ERROR: Failed to get agent card from ''
                                            @ address @ '': '' @ exn_str (Lib e))]])
             else if isinstance_Exception (Lib e) then
               (None, self, out @ [Print [PStr (''ERROR: Failed to initialize connection for ''
                                            @ address @ '': '' @ exn_str (Lib e))]])
             else (Some (Lib e), self, out))))"

text \<open>The loop over \<open>remote_agent_addresses\<close>: an exception that is not caught ends it.\<close>

fun async_init_loop ::
  "(string \<Rightarrow> lib_exn + AgentCard) \<Rightarrow> string list \<Rightarrow> TravelHostAgent \<times> printed list
   \<Rightarrow> exn option \<times> TravelHostAgent \<times> printed list" where
  "async_init_loop get_agent_card [] s = (None, s)"
| "async_init_loop get_agent_card (address # rest) s =
     (case async_init_address get_agent_card address s of
        (None, s') \<Rightarrow> async_init_loop get_agent_card rest s'
      | (Some e, s') \<Rightarrow> (Some e, s'))"

text \<open>
  \<open>json.dumps({"name": card.name, "description": card.description})\<close>, with
  \<open>json.dumps\<close> a parameter.
\<close>

definition card_info :: "(pyval \<Rightarrow> string) \<Rightarrow> AgentCard \<Rightarrow> string" where
  "card_info json_dumps agent_card =
     json_dumps (PDict [(''name'', PStr (name agent_card)),
                        (''description'', PStr (description agent_card))])"

text \<open>\<open>TravelHostAgent._async_init_components\<close>\<close>

definition async_init_components ::
  "(string \<Rightarrow> lib_exn + AgentCard) \<Rightarrow> (pyval \<Rightarrow> string) \<Rightarrow> string list
   \<Rightarrow> TravelHostAgent \<times> printed list \<Rightarrow> exn option \<times> TravelHostAgent \<times> printed list" where
  "async_init_components get_agent_card json_dumps remote_agent_addresses s =
     (case async_init_loop get_agent_card remote_agent_addresses s of
        (Some e, s') \<Rightarrow> (Some e, s')
      | (None, self, out) \<Rightarrow>
          (let agent_info = map (card_info json_dumps) (dict_values (cards self));
               out = out @ [Print [PStr ''agent_info:'', PList (map PStr agent_info)]];
               self = self\<lparr>agents := (if agent_info \<noteq> [] then join ''\<newline>'' agent_info
                                        else ''No agents found'')\<rparr>
           in (None, self, out)))"

text \<open>
  \<open>TravelHostAgent.create\<close>: the instance is returned when the initialization returns;
  an exception it lets through leaves \<open>create\<close> too.
\<close>

definition create ::
  "(string \<Rightarrow> lib_exn + AgentCard) \<Rightarrow> (pyval \<Rightarrow> string) \<Rightarrow> string list \<Rightarrow> printed list
   \<Rightarrow> (exn + TravelHostAgent) \<times> printed list" where
  "create get_agent_card json_dumps remote_agent_addresses out =
     (let instance = TravelHostAgent_init in
      case async_init_components get_agent_card json_dumps remote_agent_addresses (instance, out) of
        (None, instance, out) \<Rightarrow> (Inr instance, out)
      | (Some e, instance, out) \<Rightarrow> (Inl e, out))"

text \<open>
  The states of a \<open>TravelHostAgent\<close> that its operations can produce: \<open>__init__\<close>
  makes one, \<open>_async_init_components\<close> (whether it returns or raises) changes it; the
  other methods (\<open>create_agent\<close>, \<open>root_instruction\<close>, \<open>check_active_agent\<close>,
  \<open>before_model_callback\<close>, \<open>send_message\<close>) assign no field of \<open>self\<close>.
\<close>

inductive reachable :: "TravelHostAgent \<Rightarrow> bool" where
  init: "reachable TravelHostAgent_init"
| async_init:
    "reachable self \<Longrightarrow>
     async_init_components get_agent_card json_dumps remote_agent_addresses (self, out)
       = (r, self', out')
     \<Longrightarrow> reachable self'"

section \<open>agent.py: the system prompt\<close>

text \<open>
  An f-string field \<open>{v}\<close>: a string is inserted as it is; for any other value Python
  inserts \<open>str(v)\<close>, which is the parameter \<open>str_of\<close>.
\<close>

definition fstr :: "(pyval \<Rightarrow> string) \<Rightarrow> pyval \<Rightarrow> string" where
  "fstr str_of v = (case v of PStr s \<Rightarrow> s | _ \<Rightarrow> str_of v)"

text \<open>\<open>TravelHostAgent.check_active_agent\<close>, on the session state.\<close>

definition check_active_agent ::
  "(pyval \<Rightarrow> string) \<Rightarrow> (string, pyval) dict \<Rightarrow> (string, string) dict" where
  "check_active_agent str_of state =
     (if dict_in ''session_id'' state
         \<and> dict_in ''session_active'' state
         \<and> (case dict_get state ''session_active'' of Some v \<Rightarrow> truthy v | None \<Rightarrow> False)
         \<and> dict_in ''active_agent'' state
      then (case dict_get state ''active_agent'' of
              Some v \<Rightarrow> [(''active_agent'', fstr str_of v)]
            | None \<Rightarrow> [(''active_agent'', ''None'')])
      else [(''active_agent'', ''None'')])"

definition rightwards_arrow :: string where
  "rightwards_arrow = [CHR 0xE2, CHR 0x86, CHR 0x92]"

definition check_mark :: string where
  "check_mark = [CHR 0xE2, CHR 0x9C, CHR 0x93]"

text \<open>The literal text of the prompt, between its fields (strings are UTF-8 bytes).\<close>

definition instruction_role :: string where
  "instruction_role =
     ''\<newline>''
   @ ''**Role:** You are an expert Travel Concierge. Your primary function is to help users plan and manage their travel, routing requests to specialized remote agents when available.\<newline>''
   @ ''\<newline>''
   @ ''**Core Responsibilities:**\<newline>''
   @ ''\<newline>''
   @ ''1. **Travel Planning:** Help users discover destinations, plan itineraries, find flights/hotels, and manage bookings.\<newline>''
   @ ''\<newline>''
   @ ''2. **Trip Phase Detection:** Determine the current trip phase using the context below:\<newline>''
   @ ''   - **Pre-Booking Phase** (no trip dates): Help with inspiration and planning\<newline>''
   @ ''   - **Pre-Trip Phase** (before start_date): Assist with preparation tasks\<newline>''
   @ ''   - **In-Trip Phase** (during the trip dates): Provide real-time support\<newline>''
   @ ''   - **Post-Trip Phase** (after end_date): Collect feedback and preferences\<newline>''
   @ ''\<newline>''
   @ ''3. **Context-Aware Assistance:** Use relevant contextual information (user preferences, trip details, conversation history) to provide personalized recommendations.\<newline>''
   @ ''\<newline>''
   @ ''4. **Task Delegation:** When remote agents are available, delegate specialized tasks to appropriate agents via A2A protocol.\<newline>''
   @ ''\<newline>''
   @ ''**Available Remote A2A Agents:**\<newline>''
   @ ''\<newline>''"

definition instruction_context :: string where
  "instruction_context =
     ''\<newline>''
   @ ''\<newline>''
   @ ''**Current Context:**\<newline>''
   @ ''Current Time: ''"

definition instruction_profile :: string where
  "instruction_profile =
     ''\<newline>''
   @ ''\<newline>''
   @ ''User Profile:\<newline>''"

definition instruction_trip :: string where
  "instruction_trip =
     ''\<newline>''
   @ ''\<newline>''
   @ ''Trip Information:\<newline>''"

definition instruction_directives :: string where
  "instruction_directives =
     ''\<newline>''
   @ ''\<newline>''
   @ ''**Decision Logic:**\<newline>''
   @ ''\<newline>''
   @ ''- For travel inspiration, destination suggestions, or activity recommendations '' @ rightwards_arrow @ '' Use **inspiration_agent** if available\<newline>''
   @ ''- For flight/hotel searches, seat/room selections, or itinerary building '' @ rightwards_arrow @ '' Use **planning_agent** if available\<newline>''
   @ ''- For reservations, payment processing, or booking confirmations '' @ rightwards_arrow @ '' Use **booking_agent** if available\<newline>''
   @ ''- For pre-trip preparation (visas, weather, packing) '' @ rightwards_arrow @ '' Use **pre_trip_agent** if available\<newline>''
   @ ''- For real-time travel support or daily itineraries '' @ rightwards_arrow @ '' Use **in_trip_agent** if available\<newline>''
   @ ''- For post-trip feedback or preference extraction '' @ rightwards_arrow @ '' Use **post_trip_agent** if available\<newline>''
   @ ''\<newline>''
   @ ''**Key Directives:**\<newline>''
   @ ''\<newline>''
   @ check_mark @ '' Provide helpful travel planning advice to users\<newline>''
   @ check_mark @ '' Route tasks to remote agents when available based on trip phase and user intent\<newline>''
   @ check_mark @ '' Provide minimal but complete context to remote agents\<newline>''
   @ check_mark @ '' Transparently relay all remote agent responses to the user\<newline>''
   @ check_mark @ '' Use the send_message tool to communicate with remote agents via A2A\<newline>''
   @ check_mark @ '' Handle long-running operations gracefully (agents may take time to respond)\<newline>''
   @ check_mark @ '' Focus on the most recent user interactions when making decisions\<newline>''"

text \<open>
  \<open>TravelHostAgent.root_instruction\<close>, on the session state. Parameters: \<open>str_of\<close>
  (\<open>str\<close> on a value that is not a string), \<open>json_dumps_indent\<close>
  (\<open>json.dumps(v, indent=2)\<close>) and \<open>current_time\<close> (the formatted
  \<open>datetime.now()\<close>). The subscript \<open>current_agent['active_agent']\<close> raises
  \<open>KeyError\<close> on a missing key.
\<close>

definition root_instruction ::
  "(pyval \<Rightarrow> string) \<Rightarrow> (pyval \<Rightarrow> string) \<Rightarrow> string \<Rightarrow> TravelHostAgent
   \<Rightarrow> (string, pyval) dict \<Rightarrow> exn + string" where
  "root_instruction str_of json_dumps_indent current_time self state =
     (let current_agent = check_active_agent str_of state;
          user_profile_context =
            dict_get_default state ''user_profile'' (PStr ''No user profile available'');
          user_profile_context =
            (case user_profile_context of
               PDict d \<Rightarrow> PStr (json_dumps_indent user_profile_context)
             | _ \<Rightarrow> user_profile_context);
          itinerary = dict_get_default state ''itinerary'' (PDict []);
          (trip_start, trip_end, trip_destination) =
            (case itinerary of
               PDict d \<Rightarrow>
                 (dict_get_default d ''start_date'' (PStr ''Not set''),
                  dict_get_default d ''end_date'' (PStr ''Not set''),
                  dict_get_default d ''destination'' (PStr ''Not determined''))
             | _ \<Rightarrow> (PStr ''Not set'', PStr ''Not set'', PStr ''Not determined''))
      in case dict_get current_agent ''active_agent'' of
           None \<Rightarrow> Inl (KeyError ''active_agent'')
         | Some active_agent \<Rightarrow>
            (let trip_info_context =
                   ''\<newline>        Destination: '' @ fstr str_of trip_destination
                 @ ''\<newline>        Start Date: '' @ fstr str_of trip_start
                 @ ''\<newline>        End Date: '' @ fstr str_of trip_end
                 @ ''\<newline>        Active Agent: '' @ active_agent
                 @ ''\<newline>        ''
             in Inr (instruction_role @ agents self
                     @ instruction_context @ current_time
                     @ instruction_profile @ fstr str_of user_profile_context
                     @ instruction_trip @ trip_info_context
                     @ instruction_directives)))"

section \<open>agent.py: sending a message to a remote agent\<close>

text \<open>
  The types of the a2a library that \<open>send_message\<close> inspects: a
  \<open>SendMessageResponse\<close> is a JSON-RPC error response or a
  \<open>SendMessageSuccessResponse\<close>, whose result is a \<open>Task\<close> or a \<open>Message\<close>.
\<close>

datatype a2a_result = Task pyval | Message pyval

datatype SendMessageResponse =
    JSONRPCErrorResponse pyval
  | SendMessageSuccessResponse a2a_result

text \<open>
  The calls into the a2a library, as parameters: \<open>MessageSendParams.model_validate\<close>,
  the constructor \<open>SendMessageRequest(id=..., params=...)\<close>, the method
  \<open>client.send_message(message_request=...)\<close> of a connection and
  \<open>model_dump_json(exclude_none=True, indent=2)\<close> of a response. The first three can
  raise; what they raise is a \<open>lib_exn\<close>, so a \<open>ValidationError\<close> of pydantic
  is a \<open>LibValueError\<close>.
\<close>

record a2a_lib =
  model_validate :: "pyval \<Rightarrow> lib_exn + pyval"
  SendMessageRequest :: "pyval \<Rightarrow> pyval \<Rightarrow> lib_exn + pyval"
  client_send_message :: "RemoteAgentConnections \<Rightarrow> pyval \<Rightarrow> lib_exn + SendMessageResponse"
  model_dump_json :: "SendMessageResponse \<Rightarrow> string"

text \<open>\<open>type(v).__name__\<close>\<close>

fun type_name :: "pyval \<Rightarrow> string" where
  "type_name PNone = ''NoneType''"
| "type_name (PBool b) = ''bool''"
| "type_name (PInt i) = ''int''"
| "type_name (PStr s) = ''str''"
| "type_name (PList xs) = ''list''"
| "type_name (PDict d) = ''dict''"

text \<open>
  Lines 272 to 277 of \<open>send_message\<close>: the message id that the session state
  supplies, the empty string when it supplies none. \<open>metadata.update(**v)\<close> raises
  \<open>TypeError\<close> when \<open>v\<close> is not a mapping (the message is that of Python 3.11).
\<close>

definition input_message_id :: "(string, pyval) dict \<Rightarrow> exn + pyval" where
  "input_message_id state =
     (case dict_get state ''input_message_metadata'' of
        None \<Rightarrow> Inr (PStr [])
      | Some v \<Rightarrow>
         (case v of
            PDict metadata \<Rightarrow>
              Inr (case dict_get metadata ''message_id'' of Some w \<Rightarrow> w | None \<Rightarrow> PStr [])
          | _ \<Rightarrow> Inl (TypeError (''dict.update() argument after ** must be a mapping, not ''
                                 @ type_name v))))"

text \<open>Lines 281 to 295: the payload.\<close>

definition message_payload :: "string \<Rightarrow> pyval \<Rightarrow> pyval \<Rightarrow> pyval \<Rightarrow> pyval" where
  "message_payload task message_id task_id context_id =
     (let message =
            [(''role'', PStr ''user''),
             (''parts'', PList [PDict [(''type'', PStr ''text''), (''text'', PStr task)]]),
             (''messageId'', message_id)];
          message = (if truthy task_id then dict_set message ''taskId'' task_id else message);
          message =
            (if truthy context_id then dict_set message ''contextId'' context_id else message)
      in PDict [(''message'', PDict message)])"

text \<open>
  Lines 265 to 299 of \<open>send_message\<close>: from the task text and the session state to the
  message request. \<open>uuids\<close> holds the values that the three calls \<open>str(uuid.uuid4())\<close>
  return (each is used only where the code makes the call).
\<close>

definition build_request ::
  "a2a_lib \<Rightarrow> string \<Rightarrow> string \<times> string \<times> string \<Rightarrow> (string, pyval) dict \<Rightarrow> exn + pyval" where
  "build_request lib task uuids state =
     (case uuids of (uuid_task, uuid_context, uuid_message) \<Rightarrow>
      let task_id = (case dict_get state ''task_id'' of Some v \<Rightarrow> v | None \<Rightarrow> PStr uuid_task);
          context_id =
            (case dict_get state ''context_id'' of Some v \<Rightarrow> v | None \<Rightarrow> PStr uuid_context)
      in case input_message_id state of
           Inl e \<Rightarrow> Inl e
         | Inr message_id \<Rightarrow>
            (let message_id = (if \<not> truthy message_id then PStr uuid_message else message_id);
                 payload = message_payload task message_id task_id context_id
             in case model_validate lib payload of
                  Inl e \<Rightarrow> Inl (Lib e)
                | Inr params \<Rightarrow>
                   (case SendMessageRequest lib message_id params of
                      Inl e \<Rightarrow> Inl (Lib e)
                    | Inr message_request \<Rightarrow> Inr message_request)))"

text \<open>
  \<open>TravelHostAgent.send_message\<close>. The result is what the call returns (\<open>Some\<close> the
  task, or \<open>None\<close>) or the exception it raises, with the session state and the output
  as the call leaves them.
\<close>

definition send_message ::
  "a2a_lib \<Rightarrow> TravelHostAgent \<Rightarrow> string \<Rightarrow> string \<Rightarrow> string \<times> string \<times> string
   \<Rightarrow> (string, pyval) dict \<times> printed list
   \<Rightarrow> (exn + pyval option) \<times> (string, pyval) dict \<times> printed list" where
  "send_message lib self agent_name task uuids s =
     (case s of (state, out) \<Rightarrow>
       if \<not> dict_in agent_name (remote_agent_connections self) then
         (Inl (ValueError (''Agent '' @ agent_name @ '' not found'')), state, out)
       else
         (let state = dict_set state ''active_agent'' (PStr agent_name) in
          case dict_get (remote_agent_connections self) agent_name of
            None \<Rightarrow> (Inl (KeyError agent_name), state, out)
          | Some client \<Rightarrow>
             if \<not> truthy_conn client then
               (Inl (ValueError (''Client not available for '' @ agent_name)), state, out)
             else
               (case build_request lib task uuids state of
                  Inl e \<Rightarrow> (Inl e, state, out)
                | Inr message_request \<Rightarrow>
                   (case client_send_message lib client message_request of
                      Inl e \<Rightarrow> (Inl (Lib e), state, out)
                    | Inr send_response \<Rightarrow>
                       (let out = out @ [Print [PStr ''send_response'',
                                                PStr (model_dump_json lib send_response)]]
                        in case send_response of
                             JSONRPCErrorResponse err \<Rightarrow>
                               (Inr None, state,
                                out @ [Print [PStr ''received non-success response. Aborting get task '']])
                           | SendMessageSuccessResponse (Message m) \<Rightarrow>
                               (Inr None, state,
                                out @ [Print [PStr ''received non-task response. Aborting get task '']])
                           | SendMessageSuccessResponse (Task t) \<Rightarrow>
                               (Inr (Some t), state, out))))))"

section \<open>__main__.py: relaying the events of a run\<close>

text \<open>
  The fields of the ADK and genai objects that \<open>get_response_from_agent\<close> reads. An
  optional attribute is an \<open>option\<close>; \<open>is_final_response\<close> is the value of the
  event's method \<open>is_final_response()\<close>.
\<close>

record FunctionCall =
  fc_name :: "string option"
  fc_args :: pyval

record FunctionResponse =
  fr_name :: "string option"
  fr_response :: pyval

record Part =
  part_text :: "string option"
  function_call :: "FunctionCall option"
  function_response :: "FunctionResponse option"

record Content =
  parts :: "Part list option"

record EventActions =
  escalate :: "bool option"

record Event =
  content :: "Content option"
  actions :: "EventActions option"
  error_message :: "string option"
  is_final_response :: bool

type_synonym chat_message = "(string, string) dict"

text \<open>The emoji that open the two announcements, as UTF-8 bytes.\<close>

definition hammer_and_wrench :: string where
  "hammer_and_wrench = [CHR 0xF0, CHR 0x9F, CHR 0x9B, CHR 0xA0, CHR 0xEF, CHR 0xB8, CHR 0x8F]"

definition high_voltage :: string where
  "high_voltage = [CHR 0xE2, CHR 0x9A, CHR 0xA1]"

text \<open>An f-string field holding an optional name: \<open>None\<close> is rendered as \<open>None\<close>.\<close>

definition fstr_name :: "string option \<Rightarrow> string" where
  "fstr_name n = (case n of Some s \<Rightarrow> s | None \<Rightarrow> ''None'')"

text \<open>
  \<open>event.content and event.content.parts\<close> is truthy when the content is present and
  its list of parts is present and not empty; \<open>content_parts\<close> is that list, and
  \<open>[]\<close> otherwise.
\<close>

definition content_parts :: "Event \<Rightarrow> Part list" where
  "content_parts event =
     (case content event of
        None \<Rightarrow> []
      | Some c \<Rightarrow> (case parts c of None \<Rightarrow> [] | Some ps \<Rightarrow> ps))"

text \<open>
  Lines 43 to 62: what one part of an event yields. \<open>model_dump\<close> is
  \<open>function_call.model_dump(exclude_none=True)\<close> and \<open>pformat\<close> is
  \<open>pformat(v, indent=2, width=80)\<close>.
\<close>

definition relay_part ::
  "(FunctionCall \<Rightarrow> pyval) \<Rightarrow> (pyval \<Rightarrow> string) \<Rightarrow> Part \<Rightarrow> chat_message list" where
  "relay_part model_dump pformat part =
     (case function_call part of
        Some fc \<Rightarrow>
          (let formatted_call = ''```python\<newline>'' @ pformat (model_dump fc) @ ''\<newline>```''
           in [[(''role'', ''assistant''),
                (''content'', hammer_and_wrench @ '' **Tool Call: '' @ fstr_name (fc_name fc)
                              @ ''**\<newline>'' @ formatted_call)]])
      | None \<Rightarrow>
          (case function_response part of
             Some fr \<Rightarrow>
               (let response_content = fr_response fr;
                    formatted_response_data =
                      (case response_content of
                         PDict d \<Rightarrow>
                           (case dict_get d ''response'' of
                              Some v \<Rightarrow> v
                            | None \<Rightarrow> response_content)
                       | _ \<Rightarrow> response_content);
                    formatted_response =
                      ''```json\<newline>'' @ pformat formatted_response_data @ ''\<newline>```''
                in [[(''role'', ''assistant''),
                     (''content'', high_voltage @ '' **Tool Response from ''
                                   @ fstr_name (fr_name fr) @ ''**\<newline>''
                                   @ formatted_response)]])
           | None \<Rightarrow> []))"

text \<open>Lines 41 to 62: what the parts of one event yield.\<close>

definition relay_event ::
  "(FunctionCall \<Rightarrow> pyval) \<Rightarrow> (pyval \<Rightarrow> string) \<Rightarrow> Event \<Rightarrow> chat_message list" where
  "relay_event model_dump pformat event =
     (if content_parts event \<noteq> [] then concat (map (relay_part model_dump pformat) (content_parts event))
      else [])"

text \<open>Lines 64 to 70: the text of a final response.\<close>

definition final_response_text :: "Event \<Rightarrow> string" where
  "final_response_text event =
     (if content_parts event \<noteq> [] then
        concat (map (\<lambda>p. case part_text p of Some t \<Rightarrow> t | None \<Rightarrow> [])
                    (filter (\<lambda>p. case part_text p of Some t \<Rightarrow> t \<noteq> [] | None \<Rightarrow> False)
                            (content_parts event)))
      else if (case actions event of Some a \<Rightarrow> escalate a = Some True | None \<Rightarrow> False) then
        ''Agent escalated: ''
        @ (case error_message event of
             Some m \<Rightarrow> if m \<noteq> [] then m else ''No specific message.''
           | None \<Rightarrow> ''No specific message.'')
      else [])"

text \<open>Lines 71 and 72: the message a final response yields, when its text is not empty.\<close>

definition final_message :: "Event \<Rightarrow> chat_message list" where
  "final_message event =
     (if final_response_text event \<noteq> [] then
        [[(''role'', ''assistant''), (''content'', final_response_text event)]]
      else [])"

text \<open>
  The \<open>async for\<close> loop. The iterator yields the listed events and then ends
  (\<open>None\<close>) or raises (\<open>Some e\<close>). The result is the messages yielded and the
  exception that leaves the loop, if any; \<open>break\<close> leaves it at a final response.
\<close>

fun relay_events ::
  "(FunctionCall \<Rightarrow> pyval) \<Rightarrow> (pyval \<Rightarrow> string) \<Rightarrow> Event list \<Rightarrow> exn option
   \<Rightarrow> chat_message list \<times> exn option" where
  "relay_events model_dump pformat [] ending = ([], ending)"
| "relay_events model_dump pformat (event # rest) ending =
     (let yielded = relay_event model_dump pformat event in
      if is_final_response event then (yielded @ final_message event, None)
      else (case relay_events model_dump pformat rest ending of
              (later, r) \<Rightarrow> (yielded @ later, r)))"

definition error_notice :: chat_message where
  "error_notice =
     [(''role'', ''assistant''),
      (''content'', ''An error occurred while processing your request. Please check the server logs for details.'')]"

text \<open>
  \<open>get_response_from_agent(message, history)\<close>. \<open>run_async\<close> is what
  \<open>ROUTING_AGENT_RUNNER.run_async\<close> does with the message: the events its iterator
  yields and how it ends. The result is the messages the generator yields, the exception
  that leaves it, if any, and the output.
\<close>

definition get_response_from_agent ::
  "(string \<Rightarrow> Event list \<times> exn option) \<Rightarrow> (FunctionCall \<Rightarrow> pyval) \<Rightarrow> (pyval \<Rightarrow> string)
   \<Rightarrow> string \<Rightarrow> chat_message list \<Rightarrow> printed list
   \<Rightarrow> chat_message list \<times> exn option \<times> printed list" where
  "get_response_from_agent run_async model_dump pformat message history out =
     (case run_async message of (events, ending) \<Rightarrow>
      case relay_events model_dump pformat events ending of
        (yielded, None) \<Rightarrow> (yielded, None, out)
      | (yielded, Some e) \<Rightarrow>
          if isinstance_Exception e then
            (yielded @ [error_notice], None,
             out @ [Print [PStr (''Error in get_response_from_agent (Type: '' @ type_str e
                                 @ ''): '' @ exn_str e)],
                    PrintExc e])
          else (yielded, Some e, out))"

section \<open>Notions used in the statements\<close>

text \<open>The line that the handlers of \<open>_async_init_components\<close> print for an address.\<close>

definition error_line :: "string \<Rightarrow> lib_exn \<Rightarrow> string" where
  "error_line address e =
     (if isinstance_ConnectError (Lib e) then ''ERROR: Failed to get agent card from ''
      else ''ERROR: Failed to initialize connection for '')
     @ address @ '': '' @ exn_str (Lib e)"

text \<open>
  Every entry of the two dictionaries comes from an address of \<open>S\<close> whose resolution
  returned the card stored, under the name of that card.
\<close>

definition from_addresses ::
  "(string \<Rightarrow> lib_exn + AgentCard) \<Rightarrow> string set \<Rightarrow> TravelHostAgent \<Rightarrow> bool" where
  "from_addresses g S self \<longleftrightarrow>
     (\<forall>k conn. dict_get (remote_agent_connections self) k = Some conn \<longrightarrow>
        conn_address conn \<in> S \<and> g (conn_address conn) = Inr (conn_card conn)
        \<and> name (conn_card conn) = k)
     \<and> (\<forall>k c. dict_get (cards self) k = Some c \<longrightarrow> name c = k \<and> (\<exists>a\<in>S. g a = Inr c))"

text \<open>The cards that the resolutions of a list of addresses return, in the order of the list.\<close>

definition resolved_cards :: "(string \<Rightarrow> lib_exn + AgentCard) \<Rightarrow> string list \<Rightarrow> AgentCard list" where
  "resolved_cards get_agent_card addresses =
     concat (map (\<lambda>a. case get_agent_card a of Inr c \<Rightarrow> [c] | Inl e \<Rightarrow> []) addresses)"

text \<open>
  A field of the trip context as the session state gives it: the value under \<open>key\<close> of
  the itinerary, and the default when the state has no itinerary, the itinerary is not a
  dictionary, or it lacks the key.
\<close>

definition trip_field :: "(pyval \<Rightarrow> string) \<Rightarrow> (string, pyval) dict \<Rightarrow> string \<Rightarrow> string \<Rightarrow> string" where
  "trip_field str_of state key dflt =
     (case dict_get state ''itinerary'' of
        Some (PDict itinerary) \<Rightarrow>
          (case dict_get itinerary key of Some v \<Rightarrow> fstr str_of v | None \<Rightarrow> dflt)
      | Some _ \<Rightarrow> dflt
      | None \<Rightarrow> dflt)"

text \<open>
  The cards that a dictionary keyed by name lists after the cards \<open>cs\<close> have been
  assigned to it in order: one card for each name, at the place of the first card of that
  name, and it is the last card of that name.
\<close>

fun listed_cards :: "AgentCard list \<Rightarrow> AgentCard list" where
  "listed_cards [] = []"
| "listed_cards (c # cs) =
     (case find (\<lambda>d. name d = name c) (rev cs) of Some d \<Rightarrow> d | None \<Rightarrow> c)
     # listed_cards (filter (\<lambda>d. name d \<noteq> name c) cs)"

text \<open>The same list as a dictionary keyed by name.\<close>

definition keyed :: "AgentCard list \<Rightarrow> (string, AgentCard) dict" where
  "keyed cs = map (\<lambda>c. (name c, c)) cs"

text \<open>
  The active agent as the session state gives it: the value of \<open>active_agent\<close> when
  the state has a \<open>session_id\<close>, a truthy \<open>session_active\<close> and an
  \<open>active_agent\<close>, and \<open>None\<close> otherwise.
\<close>

definition active_agent_of :: "(pyval \<Rightarrow> string) \<Rightarrow> (string, pyval) dict \<Rightarrow> string" where
  "active_agent_of str_of state =
     (case dict_get state ''session_id'' of
        None \<Rightarrow> ''None''
      | Some session_id \<Rightarrow>
         (case dict_get state ''session_active'' of
            None \<Rightarrow> ''None''
          | Some session_active \<Rightarrow>
             if truthy session_active then
               (case dict_get state ''active_agent'' of
                  None \<Rightarrow> ''None''
                | Some active_agent \<Rightarrow> fstr str_of active_agent)
             else ''None''))"

text \<open>The concatenation of the texts of a list of parts (a part without text adds nothing).\<close>

definition joined_text :: "Part list \<Rightarrow> string" where
  "joined_text ps = concat (map (\<lambda>p. case part_text p of Some t \<Rightarrow> t | None \<Rightarrow> []) ps)"

section \<open>Concrete runs\<close>

text \<open>
  Inputs for the closed theorems: a card, resolvers (the agent answers at one address and
  the other refuses the connection; the same agent answers at every address; the task is
  cancelled during the first resolution; two versions of the agent answer under one name)
  and \<open>json.dumps\<close> on the dictionaries of two string fields that the bootstrap passes.
\<close>

definition inspiration_card :: AgentCard where
  "inspiration_card =
     \<lparr>name = ''inspiration_agent'', description = ''Suggests destinations and activities''\<rparr>"

definition resolver_up :: "string \<Rightarrow> lib_exn + AgentCard" where
  "resolver_up address =
     (if address = ''http://0.0.0.0:10001'' then Inr inspiration_card
      else Inl (ConnectError ''All connection attempts failed''))"

definition resolver_same :: "string \<Rightarrow> lib_exn + AgentCard" where
  "resolver_same address = Inr inspiration_card"

definition resolver_cancelled :: "string \<Rightarrow> lib_exn + AgentCard" where
  "resolver_cancelled address =
     (if address = ''http://0.0.0.0:10001'' then Inl (LibBaseException ''asyncio.CancelledError'' [])
      else Inr inspiration_card)"

definition resolver_versions :: "string \<Rightarrow> lib_exn + AgentCard" where
  "resolver_versions address =
     (if address = ''http://0.0.0.0:10001'' then Inr inspiration_card
      else Inr (inspiration_card\<lparr>description := ''Suggests places to visit''\<rparr>))"

definition json_dumps_cards :: "pyval \<Rightarrow> string" where
  "json_dumps_cards v =
     (case v of
        PDict [(k1, PStr v1), (k2, PStr v2)] \<Rightarrow>
          ''{'' @ [CHR 0x22] @ k1 @ [CHR 0x22] @ '': '' @ [CHR 0x22] @ v1 @ [CHR 0x22] @ '', ''
          @ [CHR 0x22] @ k2 @ [CHR 0x22] @ '': '' @ [CHR 0x22] @ v2 @ [CHR 0x22] @ ''}''
      | _ \<Rightarrow> ''null'')"

definition example_agent :: TravelHostAgent where
  "example_agent =
     \<lparr>remote_agent_connections =
        [(''inspiration_agent'',
          \<lparr>conn_card = inspiration_card, conn_address = ''http://0.0.0.0:10001''\<rparr>)],
      cards = [(''inspiration_agent'', inspiration_card)],
      agents = json_dumps_cards (PDict [(''name'', PStr ''inspiration_agent''),
                 (''description'', PStr ''Suggests destinations and activities'')])\<rparr>"

text \<open>
  A second card, a second version of the first card under the same name, a resolver for
  three addresses that answer with them, and the agent that \<open>create\<close> returns for
  the three addresses.
\<close>

definition planning_card :: AgentCard where
  "planning_card = \<lparr>name = ''planning_agent'', description = ''Finds flights and hotels''\<rparr>"

definition inspiration_card_v2 :: AgentCard where
  "inspiration_card_v2 = inspiration_card\<lparr>description := ''Suggests places to visit''\<rparr>"

definition resolver_fleet :: "string \<Rightarrow> lib_exn + AgentCard" where
  "resolver_fleet address =
     (if address = ''http://0.0.0.0:10001'' then Inr inspiration_card
      else if address = ''http://0.0.0.0:10002'' then Inr planning_card
      else if address = ''http://0.0.0.0:10003'' then Inr inspiration_card_v2
      else Inl (ConnectError ''All connection attempts failed''))"

definition fleet_agent :: TravelHostAgent where
  "fleet_agent =
     \<lparr>remote_agent_connections =
        [(''inspiration_agent'',
          \<lparr>conn_card = inspiration_card_v2, conn_address = ''http://0.0.0.0:10003''\<rparr>),
         (''planning_agent'',
          \<lparr>conn_card = planning_card, conn_address = ''http://0.0.0.0:10002''\<rparr>)],
      cards = [(''inspiration_agent'', inspiration_card_v2), (''planning_agent'', planning_card)],
      agents = card_info json_dumps_cards inspiration_card_v2 @ ''\<newline>''
               @ card_info json_dumps_cards planning_card\<rparr>"

text \<open>A session state with an active session and an itinerary that has no end date.\<close>

definition session_state :: "(string, pyval) dict" where
  "session_state =
     [(''session_id'', PStr ''default_session''),
      (''session_active'', PBool True),
      (''active_agent'', PStr ''planning_agent''),
      (''itinerary'', PDict [(''destination'', PStr ''Lisbon''), (''start_date'', PStr ''2025-06-01'')])]"

text \<open>
  An a2a library that validates every payload and whose client returns a given response,
  one whose client cannot connect, the values of the three calls of \<open>uuid4\<close>, and
  the request that results for the task text \<open>Find a beach\<close> on an empty state.
\<close>

definition example_lib :: "SendMessageResponse \<Rightarrow> a2a_lib" where
  "example_lib response =
     \<lparr>model_validate = (\<lambda>payload. Inr payload),
      SendMessageRequest = (\<lambda>request_id params. Inr (PDict [(''id'', request_id), (''params'', params)])),
      client_send_message = (\<lambda>client message_request. Inr response),
      model_dump_json = (\<lambda>response. ''{}'')\<rparr>"

definition example_lib_down :: a2a_lib where
  "example_lib_down =
     (example_lib (JSONRPCErrorResponse PNone))
       \<lparr>client_send_message :=
          (\<lambda>client message_request. Inl (ConnectError ''All connection attempts failed''))\<rparr>"

definition example_uuids :: "string \<times> string \<times> string" where
  "example_uuids =
     (''0b0e0c9e-5b0a-4c58-9d6f-2f5a3c1d7e11'', ''7d1f5a52-91c3-4e0b-8a44-6b1e2d3c4f55'',
      ''c3a1b2d4-0f9e-4a7b-b6c5-9e8d7f6a5b44'')"

definition example_request :: pyval where
  "example_request =
     PDict [(''id'', PStr ''c3a1b2d4-0f9e-4a7b-b6c5-9e8d7f6a5b44''),
            (''params'', PDict [(''message'', PDict
               [(''role'', PStr ''user''),
                (''parts'', PList [PDict [(''type'', PStr ''text''), (''text'', PStr ''Find a beach'')]]),
                (''messageId'', PStr ''c3a1b2d4-0f9e-4a7b-b6c5-9e8d7f6a5b44''),
                (''taskId'', PStr ''0b0e0c9e-5b0a-4c58-9d6f-2f5a3c1d7e11''),
                (''contextId'', PStr ''7d1f5a52-91c3-4e0b-8a44-6b1e2d3c4f55'')])])]"

text \<open>
  Events of a run: a tool call, a tool response, a final response of three text parts,
  the second of them empty. Three runs: one that goes on after the final response, one
  that the tool ends with its \<open>ValueError\<close>, one that is cancelled. Stand-ins for
  \<open>model_dump\<close> and \<open>pformat\<close>.
\<close>

definition call_event :: Event where
  "call_event =
     \<lparr>content = Some \<lparr>parts = Some
        [\<lparr>part_text = None,
          function_call = Some \<lparr>fc_name = Some ''send_message'',
                                fc_args = PDict [(''agent_name'', PStr ''inspiration_agent'')]\<rparr>,
          function_response = None\<rparr>]\<rparr>,
      actions = None, error_message = None, is_final_response = False\<rparr>"

definition response_event :: Event where
  "response_event =
     \<lparr>content = Some \<lparr>parts = Some
        [\<lparr>part_text = None,
          function_call = None,
          function_response = Some \<lparr>fr_name = Some ''send_message'',
                                    fr_response = PDict [(''response'', PStr ''ok'')]\<rparr>\<rparr>]\<rparr>,
      actions = None, error_message = None, is_final_response = False\<rparr>"

definition final_event :: Event where
  "final_event =
     \<lparr>content = Some \<lparr>parts = Some
        [\<lparr>part_text = Some ''Here are '', function_call = None, function_response = None\<rparr>,
         \<lparr>part_text = Some [], function_call = None, function_response = None\<rparr>,
         \<lparr>part_text = Some ''three beaches.'', function_call = None, function_response = None\<rparr>]\<rparr>,
      actions = None, error_message = None, is_final_response = True\<rparr>"

definition run_example :: "string \<Rightarrow> Event list \<times> exn option" where
  "run_example message = ([call_event, response_event, final_event, call_event], None)"

definition run_failing :: "string \<Rightarrow> Event list \<times> exn option" where
  "run_failing message = ([call_event], Some (ValueError ''Agent booking_agent not found''))"

definition run_cancelled :: "string \<Rightarrow> Event list \<times> exn option" where
  "run_cancelled message = ([call_event], Some (Lib (LibBaseException ''asyncio.CancelledError'' [])))"

definition model_dump_example :: "FunctionCall \<Rightarrow> pyval" where
  "model_dump_example fc = fc_args fc"

definition pformat_example :: "pyval \<Rightarrow> string" where
  "pformat_example v = (case v of PStr s \<Rightarrow> s | _ \<Rightarrow> ''{...}'')"

text \<open>
  An a2a library whose \<open>model_validate\<close> raises pydantic's \<open>ValidationError\<close>
  for a payload whose \<open>taskId\<close> is not a string.
\<close>

definition example_lib_pydantic :: a2a_lib where
  "example_lib_pydantic =
     (example_lib (JSONRPCErrorResponse PNone))
       \<lparr>model_validate :=
          (\<lambda>payload.
             case payload of
               PDict [(k, PDict message)] \<Rightarrow>
                 (case dict_get message ''taskId'' of
                    None \<Rightarrow> Inr payload
                  | Some (PStr t) \<Rightarrow> Inr payload
                  | Some v \<Rightarrow>
                      Inl (LibValueError ''pydantic_core._pydantic_core.ValidationError''
                             ''1 validation error for MessageSendParams''))
             | _ \<Rightarrow> Inr payload)\<rparr>"

text \<open>A part that carries a function call and a function response, and a run with it.\<close>

definition both_part :: Part where
  "both_part =
     \<lparr>part_text = None,
      function_call = Some \<lparr>fc_name = Some ''send_message'',
                            fc_args = PDict [(''agent_name'', PStr ''inspiration_agent'')]\<rparr>,
      function_response = Some \<lparr>fr_name = Some ''send_message'',
                                fr_response = PDict [(''response'', PStr ''ok'')]\<rparr>\<rparr>"

definition both_event :: Event where
  "both_event =
     \<lparr>content = Some \<lparr>parts = Some [both_part]\<rparr>,
      actions = None, error_message = None, is_final_response = False\<rparr>"

definition run_both :: "string \<Rightarrow> Event list \<times> exn option" where
  "run_both message = ([both_event], None)"

section \<open>Properties\<close>

subsection \<open>Dictionaries\<close>

lemma map_of_dict_set: "map_of (dict_set d k v) = (map_of d)(k \<mapsto> v)"
  by (induction d) auto

lemma dict_get_dict_set: "dict_get (dict_set d k v) k' = (if k' = k then Some v else dict_get d k')"
  by (simp add: dict_get_def map_of_dict_set)

lemma dict_keys_dict_set:
  "dict_keys (dict_set d k v) = (if k \<in> set (dict_keys d) then dict_keys d else dict_keys d @ [k])"
  by (induction d) (force simp: dict_keys_def)+

lemma set_dict_keys_dict_set: "set (dict_keys (dict_set d k v)) = insert k (set (dict_keys d))"
  by (auto simp: dict_keys_dict_set)

lemma dict_in_iff: "dict_in k d \<longleftrightarrow> dict_get d k \<noteq> None"
  by (simp add: dict_in_def dict_keys_def dict_get_def map_of_eq_None_iff)

subsection \<open>The bootstrap\<close>

lemma async_init_address_ok:
  "get_agent_card address = Inr c \<Longrightarrow>
   async_init_address get_agent_card address (self, out) =
     (None,
      self\<lparr>remote_agent_connections :=
             dict_set (remote_agent_connections self) (name c) \<lparr>conn_card = c, conn_address = address\<rparr>,
           cards := dict_set (cards self) (name c) c\<rparr>,
      out)"
  by (simp add: async_init_address_def Let_def)

lemma async_init_address_caught:
  "get_agent_card address = Inl e \<Longrightarrow> isinstance_Exception (Lib e) \<Longrightarrow>
   async_init_address get_agent_card address (self, out) =
     (None, self, out @ [Print [PStr (error_line address e)]])"
  by (simp add: async_init_address_def error_line_def)

lemma async_init_address_raised:
  "get_agent_card address = Inl e \<Longrightarrow> \<not> isinstance_Exception (Lib e) \<Longrightarrow>
   async_init_address get_agent_card address (self, out) = (Some (Lib e), self, out)"
  by (cases e) (simp_all add: async_init_address_def)

lemma async_init_address_cases:
  obtains (ok) c where "get_agent_card address = Inr c"
  | (caught) e where "get_agent_card address = Inl e" "isinstance_Exception (Lib e)"
  | (raised) e where "get_agent_card address = Inl e" "\<not> isinstance_Exception (Lib e)"
  by (cases "get_agent_card address") auto

lemma async_init_loop_append:
  "async_init_loop g (xs @ ys) s =
     (case async_init_loop g xs s of
        (None, s') \<Rightarrow> async_init_loop g ys s'
      | (Some e, s') \<Rightarrow> (Some e, s'))"
  by (induction xs arbitrary: s) (auto split: prod.splits option.splits)

lemma async_init_address_keys:
  assumes "async_init_address g a (self, out) = (r, self', out')"
    and "dict_keys (cards self) = dict_keys (remote_agent_connections self)"
  shows "dict_keys (cards self') = dict_keys (remote_agent_connections self')"
proof (cases rule: async_init_address_cases [of g a])
  case (ok c)
  with assms show ?thesis by (auto simp: async_init_address_ok dict_keys_dict_set)
next
  case (caught e)
  with assms show ?thesis by (auto simp: async_init_address_caught)
next
  case (raised e)
  with assms show ?thesis by (auto simp: async_init_address_raised)
qed

lemma async_init_loop_keys:
  "async_init_loop g addrs (self, out) = (r, self', out') \<Longrightarrow>
   dict_keys (cards self) = dict_keys (remote_agent_connections self) \<Longrightarrow>
   dict_keys (cards self') = dict_keys (remote_agent_connections self')"
proof (induction addrs arbitrary: self out)
  case Nil
  then show ?case by simp
next
  case (Cons a addrs)
  obtain r1 self1 out1 where step: "async_init_address g a (self, out) = (r1, self1, out1)"
    by (cases "async_init_address g a (self, out)") auto
  have k1: "dict_keys (cards self1) = dict_keys (remote_agent_connections self1)"
    using async_init_address_keys [OF step Cons.prems(2)] .
  show ?case
  proof (cases r1)
    case None
    with Cons.prems(1) step have "async_init_loop g addrs (self1, out1) = (r, self', out')"
      by simp
    then show ?thesis using Cons.IH k1 by blast
  next
    case (Some e)
    with Cons.prems(1) step have "self' = self1" by simp
    then show ?thesis using k1 by simp
  qed
qed

lemma async_init_components_fields:
  assumes "async_init_components g jd addrs s = (r, self', out')"
  obtains r0 self0 out0 where "async_init_loop g addrs s = (r0, self0, out0)"
    and "cards self' = cards self0"
    and "remote_agent_connections self' = remote_agent_connections self0"
    and "r = r0"
  using assms
  by (cases "async_init_loop g addrs s")
     (auto simp: async_init_components_def Let_def split: option.splits)

lemma async_init_components_keys:
  assumes "async_init_components g jd addrs (self, out) = (r, self', out')"
    and "dict_keys (cards self) = dict_keys (remote_agent_connections self)"
  shows "dict_keys (cards self') = dict_keys (remote_agent_connections self')"
proof -
  from assms(1) obtain r0 self0 out0 where
    "async_init_loop g addrs (self, out) = (r0, self0, out0)"
    "cards self' = cards self0" "remote_agent_connections self' = remote_agent_connections self0"
    by (rule async_init_components_fields)
  then show ?thesis using async_init_loop_keys assms(2) by metis
qed

lemma async_init_loop_other_key:
  "async_init_loop g post (self, out) = (r, self', out') \<Longrightarrow>
   (\<forall>b\<in>set post. \<forall>c'. g b = Inr c' \<longrightarrow> name c' \<noteq> k) \<Longrightarrow>
   dict_get (cards self') k = dict_get (cards self) k
   \<and> dict_get (remote_agent_connections self') k = dict_get (remote_agent_connections self) k"
proof (induction post arbitrary: self out)
  case Nil
  then show ?case by simp
next
  case (Cons b post)
  obtain r1 self1 out1 where step: "async_init_address g b (self, out) = (r1, self1, out1)"
    by (cases "async_init_address g b (self, out)") auto
  have same1: "dict_get (cards self1) k = dict_get (cards self) k
     \<and> dict_get (remote_agent_connections self1) k = dict_get (remote_agent_connections self) k"
  proof (cases rule: async_init_address_cases [of g b])
    case (ok c)
    with Cons.prems(2) have "name c \<noteq> k" by simp
    with ok step show ?thesis by (auto simp: async_init_address_ok dict_get_dict_set)
  next
    case (caught e)
    with step show ?thesis by (auto simp: async_init_address_caught)
  next
    case (raised e)
    with step show ?thesis by (auto simp: async_init_address_raised)
  qed
  show ?case
  proof (cases r1)
    case None
    with Cons.prems(1) step have "async_init_loop g post (self1, out1) = (r, self', out')"
      by simp
    moreover from Cons.prems(2) have "\<forall>b\<in>set post. \<forall>c'. g b = Inr c' \<longrightarrow> name c' \<noteq> k"
      by simp
    ultimately show ?thesis using Cons.IH same1 by metis
  next
    case (Some e)
    with Cons.prems(1) step have "self' = self1" by simp
    then show ?thesis using same1 by simp
  qed
qed

lemma async_init_loop_last_wins:
  assumes run: "async_init_loop g (pre @ a # post) s = (None, self', out')"
    and ok: "g a = Inr c"
    and later: "\<forall>b\<in>set post. \<forall>c'. g b = Inr c' \<longrightarrow> name c' \<noteq> name c"
  shows "dict_get (remote_agent_connections self') (name c) = Some \<lparr>conn_card = c, conn_address = a\<rparr>
         \<and> dict_get (cards self') (name c) = Some c"
proof -
  obtain r1 self1 out1 where pre: "async_init_loop g pre s = (r1, self1, out1)"
    by (cases "async_init_loop g pre s") auto
  from run pre have r1: "r1 = None"
    by (cases r1) (auto simp: async_init_loop_append)
  define self2 where "self2 = self1\<lparr>remote_agent_connections :=
             dict_set (remote_agent_connections self1) (name c) \<lparr>conn_card = c, conn_address = a\<rparr>,
           cards := dict_set (cards self1) (name c) c\<rparr>"
  have "async_init_loop g post (self2, out1) = (None, self', out')"
    using run pre r1 ok by (simp add: async_init_loop_append async_init_address_ok self2_def)
  from async_init_loop_other_key [OF this later]
  show ?thesis by (simp add: self2_def dict_get_dict_set)
qed

lemma from_addresses_step:
  assumes "async_init_address g a (self, out) = (r, self', out')"
    and "from_addresses g S self" and "a \<in> S"
  shows "from_addresses g S self'"
proof (cases rule: async_init_address_cases [of g a])
  case (ok c)
  with assms(1) have self': "self' = self\<lparr>remote_agent_connections :=
             dict_set (remote_agent_connections self) (name c) \<lparr>conn_card = c, conn_address = a\<rparr>,
           cards := dict_set (cards self) (name c) c\<rparr>"
    by (simp add: async_init_address_ok)
  show ?thesis
    unfolding from_addresses_def self'
    using assms(2,3) ok
    by (auto simp: from_addresses_def dict_get_dict_set split: if_splits)
next
  case (caught e)
  with assms show ?thesis by (auto simp: async_init_address_caught)
next
  case (raised e)
  with assms show ?thesis by (auto simp: async_init_address_raised)
qed

lemma from_addresses_loop:
  "async_init_loop g addrs (self, out) = (r, self', out') \<Longrightarrow>
   from_addresses g S self \<Longrightarrow> set addrs \<subseteq> S \<Longrightarrow> from_addresses g S self'"
proof (induction addrs arbitrary: self out)
  case Nil
  then show ?case by simp
next
  case (Cons a addrs)
  obtain r1 self1 out1 where step: "async_init_address g a (self, out) = (r1, self1, out1)"
    by (cases "async_init_address g a (self, out)") auto
  have f1: "from_addresses g S self1"
    using from_addresses_step [OF step Cons.prems(2)] Cons.prems(3) by simp
  show ?case
  proof (cases r1)
    case None
    with Cons.prems(1) step have "async_init_loop g addrs (self1, out1) = (r, self', out')"
      by simp
    then show ?thesis using Cons.IH f1 Cons.prems(3) by simp
  next
    case (Some e)
    with Cons.prems(1) step have "self' = self1" by simp
    then show ?thesis using f1 by simp
  qed
qed

lemma create_Inr:
  assumes "create g jd addrs out = (Inr self, out')"
  obtains self0 out0 where
    "async_init_loop g addrs (TravelHostAgent_init, out) = (None, self0, out0)"
    "cards self = cards self0"
    "remote_agent_connections self = remote_agent_connections self0"
    "agents self = (if cards self0 = [] then ''No agents found''
                    else join ''\<newline>'' (map (card_info jd) (dict_values (cards self0))))"
  using assms
  by (cases "async_init_loop g addrs (TravelHostAgent_init, out)")
     (auto simp: create_def async_init_components_def Let_def dict_values_def
           split: option.splits)

lemma dict_set_fresh: "k \<notin> set (dict_keys d) \<Longrightarrow> dict_set d k v = d @ [(k, v)]"
  by (induction d) (auto simp: dict_keys_def)

lemma dict_set_not_Nil: "dict_set d k v \<noteq> []"
  by (induction d k v rule: dict_set.induct) simp_all

lemma resolved_cards_Cons:
  "resolved_cards g (a # addrs) = (case g a of Inr c \<Rightarrow> [c] | Inl e \<Rightarrow> []) @ resolved_cards g addrs"
  by (simp add: resolved_cards_def)

lemma async_init_loop_distinct:
  "async_init_loop g addrs (self, out) = (None, self', out') \<Longrightarrow>
   distinct (dict_keys (cards self) @ map name (resolved_cards g addrs)) \<Longrightarrow>
   cards self' = cards self @ map (\<lambda>c. (name c, c)) (resolved_cards g addrs)"
proof (induction addrs arbitrary: self out)
  case Nil
  then show ?case by (simp add: resolved_cards_def)
next
  case (Cons a addrs)
  show ?case
  proof (cases rule: async_init_address_cases [of g a])
    case (ok c)
    define self1 where "self1 = self\<lparr>remote_agent_connections :=
             dict_set (remote_agent_connections self) (name c) \<lparr>conn_card = c, conn_address = a\<rparr>,
           cards := dict_set (cards self) (name c) c\<rparr>"
    from Cons.prems(2) ok have fresh: "name c \<notin> set (dict_keys (cards self))"
      by (auto simp: resolved_cards_Cons)
    then have c1: "cards self1 = cards self @ [(name c, c)]"
      by (simp add: self1_def dict_set_fresh)
    from Cons.prems(1) ok have run: "async_init_loop g addrs (self1, out) = (None, self', out')"
      by (simp add: async_init_address_ok self1_def)
    from Cons.prems(2) ok have "distinct (dict_keys (cards self1) @ map name (resolved_cards g addrs))"
      by (auto simp: resolved_cards_Cons c1 dict_keys_def)
    from Cons.IH [OF run this] show ?thesis
      by (simp add: c1 resolved_cards_Cons ok)
  next
    case (caught e)
    with Cons.prems(1) have run: "async_init_loop g addrs
        (self, out @ [Print [PStr (error_line a e)]]) = (None, self', out')"
      by (simp add: async_init_address_caught)
    from Cons.prems(2) caught have "distinct (dict_keys (cards self) @ map name (resolved_cards g addrs))"
      by (simp add: resolved_cards_Cons)
    from Cons.IH [OF run this] show ?thesis
      by (simp add: resolved_cards_Cons caught)
  next
    case (raised e)
    with Cons.prems(1) show ?thesis by (simp add: async_init_address_raised)
  qed
qed

lemma async_init_loop_empty:
  "async_init_loop g addrs (self, out) = (None, self', out') \<Longrightarrow>
   cards self' = [] \<longleftrightarrow> cards self = [] \<and> resolved_cards g addrs = []"
proof (induction addrs arbitrary: self out)
  case Nil
  then show ?case by (simp add: resolved_cards_def)
next
  case (Cons a addrs)
  show ?case
  proof (cases rule: async_init_address_cases [of g a])
    case (ok c)
    have ne: "dict_set (cards self) (name c) c \<noteq> []"
      by (rule dict_set_not_Nil)
    from Cons.prems ok have "async_init_loop g addrs
       (self\<lparr>remote_agent_connections :=
             dict_set (remote_agent_connections self) (name c) \<lparr>conn_card = c, conn_address = a\<rparr>,
           cards := dict_set (cards self) (name c) c\<rparr>, out) = (None, self', out')"
      by (simp add: async_init_address_ok)
    from Cons.IH [OF this] ne ok show ?thesis by (simp add: resolved_cards_Cons)
  next
    case (caught e)
    with Cons.prems have "async_init_loop g addrs
        (self, out @ [Print [PStr (error_line a e)]]) = (None, self', out')"
      by (simp add: async_init_address_caught)
    from Cons.IH [OF this] caught show ?thesis by (simp add: resolved_cards_Cons)
  next
    case (raised e)
    with Cons.prems show ?thesis by (simp add: async_init_address_raised)
  qed
qed

lemma check_active_agent_key:
  "\<exists>a. check_active_agent str_of state = [(''active_agent'', a)]"
  by (simp add: check_active_agent_def split: option.splits)

lemma fstr_PStr: "fstr str_of (PStr s) = s"
  by (simp add: fstr_def)

lemma root_instruction_form:
  assumes "check_active_agent str_of state = [(''active_agent'', a)]"
  shows "\<exists>profile. root_instruction str_of json_dumps_indent current_time self state =
     Inr (instruction_role @ agents self
          @ instruction_context @ current_time
          @ instruction_profile @ profile
          @ instruction_trip
          @ ''\<newline>        Destination: '' @ trip_field str_of state ''destination'' ''Not determined''
          @ ''\<newline>        Start Date: '' @ trip_field str_of state ''start_date'' ''Not set''
          @ ''\<newline>        End Date: '' @ trip_field str_of state ''end_date'' ''Not set''
          @ ''\<newline>        Active Agent: '' @ a
          @ ''\<newline>        ''
          @ instruction_directives)"
proof (cases "dict_get state ''itinerary''")
  case None
  then show ?thesis using assms
    by (simp add: root_instruction_def Let_def trip_field_def dict_get_default_def dict_get_def
        fstr_PStr)
next
  case (Some itinerary)
  then show ?thesis using assms
    by (cases itinerary)
       (simp_all add: root_instruction_def Let_def trip_field_def dict_get_default_def
          dict_get_def fstr_PStr split: option.splits)
qed

lemma sublist_field: "sublist (l @ f) (x @ (w @ l) @ f @ y)"
proof -
  have "x @ (w @ l) @ f @ y = (x @ w) @ (l @ f) @ y" by simp
  then show ?thesis unfolding sublist_def by blast
qed

lemma sublist_second: "sublist b (a @ b @ c)"
  by simp

text \<open>The concrete run: the first address refuses the connection, the second answers.\<close>

lemma example_loop:
  "async_init_loop resolver_up [''http://localhost:10003'', ''http://0.0.0.0:10001'']
     (TravelHostAgent_init, [])
   = (None, example_agent\<lparr>agents := []\<rparr>,
      [Print [PStr ''ERROR: Failed to get agent card from http://localhost:10003: All connection attempts failed'']])"
  by (simp add: async_init_address_def resolver_up_def TravelHostAgent_init_def
        example_agent_def inspiration_card_def Let_def)

lemma example_components:
  "async_init_components resolver_up json_dumps_cards
     [''http://localhost:10003'', ''http://0.0.0.0:10001''] (TravelHostAgent_init, [])
   = (None, example_agent,
      [Print [PStr ''ERROR: Failed to get agent card from http://localhost:10003: All connection attempts failed''],
       Print [PStr ''agent_info:'', PList [PStr (agents example_agent)]]])"
  unfolding async_init_components_def example_loop
  by (simp add: example_agent_def dict_values_def card_info_def inspiration_card_def)

lemma example_create:
  "create resolver_up json_dumps_cards
     [''http://localhost:10003'', ''http://0.0.0.0:10001''] []
   = (Inr example_agent,
      [Print [PStr ''ERROR: Failed to get agent card from http://localhost:10003: All connection attempts failed''],
       Print [PStr ''agent_info:'', PList [PStr (agents example_agent)]]])"
  unfolding create_def Let_def example_components by simp

text \<open>
  C8. In every state of a \<open>TravelHostAgent\<close> that its operations can produce, the key
  set of \<open>self.cards\<close> equals the key set of \<open>self.remote_agent_connections\<close>.
\<close>

theorem cards_keys_invariant:
  "reachable self \<Longrightarrow>
   set (dict_keys (cards self)) = set (dict_keys (remote_agent_connections self))"
proof -
  assume "reachable self"
  then have "dict_keys (cards self) = dict_keys (remote_agent_connections self)"
  proof (induction rule: reachable.induct)
    case init
    show ?case by (simp add: TravelHostAgent_init_def dict_keys_def)
  next
    case (async_init self g jd addrs out r self' out')
    then show ?case using async_init_components_keys by blast
  qed
  then show ?thesis by simp
qed

theorem cards_keys_invariant_witness:
  "reachable example_agent
   \<and> set (dict_keys (cards example_agent))
       = set (dict_keys (remote_agent_connections example_agent))"
proof -
  have r: "reachable example_agent"
    using reachable.async_init [OF reachable.init example_components] .
  from cards_keys_invariant [OF r] r show ?thesis by simp
qed

text \<open>
  C1, as amended. When \<open>create\<close> returns the instance: for each address whose
  resolution returns a card, and after which no address of the list resolves to a card of
  the same name, \<open>self.remote_agent_connections\<close> maps the name of the card to the
  connection built from that card and that address, and \<open>self.cards\<close> maps it to the
  card; and every entry of the two dictionaries comes from an address of the list whose
  resolution returned the card stored, so that an address whose resolution fails
  contributes no entry. (A later card of the same name replaces the earlier entry.)
\<close>

theorem create_bootstrap:
  assumes "create get_agent_card json_dumps remote_agent_addresses out = (Inr self, out')"
  shows "(\<forall>pre address post c.
            remote_agent_addresses = pre @ address # post \<and> get_agent_card address = Inr c
            \<and> (\<forall>b\<in>set post. \<forall>c'. get_agent_card b = Inr c' \<longrightarrow> name c' \<noteq> name c)
            \<longrightarrow> dict_get (remote_agent_connections self) (name c)
                  = Some \<lparr>conn_card = c, conn_address = address\<rparr>
                \<and> dict_get (cards self) (name c) = Some c)
         \<and> from_addresses get_agent_card (set remote_agent_addresses) self"
proof -
  from assms obtain self0 out0 where
    loop: "async_init_loop get_agent_card remote_agent_addresses (TravelHostAgent_init, out)
             = (None, self0, out0)"
    and c: "cards self = cards self0"
    and r: "remote_agent_connections self = remote_agent_connections self0"
    by (rule create_Inr)
  have "from_addresses get_agent_card (set remote_agent_addresses) TravelHostAgent_init"
    by (simp add: from_addresses_def TravelHostAgent_init_def dict_get_def)
  from from_addresses_loop [OF loop this]
  have "from_addresses get_agent_card (set remote_agent_addresses) self0" by simp
  then have B: "from_addresses get_agent_card (set remote_agent_addresses) self"
    by (simp add: from_addresses_def c r)
  have A: "dict_get (remote_agent_connections self) (name c)
                  = Some \<lparr>conn_card = c, conn_address = address\<rparr>
                \<and> dict_get (cards self) (name c) = Some c"
    if "remote_agent_addresses = pre @ address # post" "get_agent_card address = Inr c"
       "\<forall>b\<in>set post. \<forall>c'. get_agent_card b = Inr c' \<longrightarrow> name c' \<noteq> name c"
    for pre address post c
    using async_init_loop_last_wins [of get_agent_card pre address post _ self0 out0 c] loop that
    by (simp add: c r)
  from A B show ?thesis by blast
qed

theorem create_bootstrap_witness:
  "create resolver_up json_dumps_cards [''http://localhost:10003'', ''http://0.0.0.0:10001''] []
     = (Inr example_agent,
        [Print [PStr ''ERROR: Failed to get agent card from http://localhost:10003: All connection attempts failed''],
         Print [PStr ''agent_info:'', PList [PStr (agents example_agent)]]])
   \<and> resolver_up ''http://0.0.0.0:10001'' = Inr inspiration_card
   \<and> dict_get (remote_agent_connections example_agent) (name inspiration_card)
       = Some \<lparr>conn_card = inspiration_card, conn_address = ''http://0.0.0.0:10001''\<rparr>
   \<and> dict_get (cards example_agent) (name inspiration_card) = Some inspiration_card
   \<and> from_addresses resolver_up (set [''http://localhost:10003'', ''http://0.0.0.0:10001''])
        example_agent"
proof -
  have ok: "resolver_up ''http://0.0.0.0:10001'' = Inr inspiration_card"
    by (simp add: resolver_up_def)
  have split: "[''http://localhost:10003'', ''http://0.0.0.0:10001'']
                 = [''http://localhost:10003''] @ ''http://0.0.0.0:10001'' # []"
    by simp
  from create_bootstrap [OF example_create] ok split
  have "dict_get (remote_agent_connections example_agent) (name inspiration_card)
       = Some \<lparr>conn_card = inspiration_card, conn_address = ''http://0.0.0.0:10001''\<rparr>
   \<and> dict_get (cards example_agent) (name inspiration_card) = Some inspiration_card"
    by (metis empty_iff empty_set)
  with create_bootstrap [OF example_create] ok example_create show ?thesis by simp
qed

text \<open>
  C1 as stated fails: the same agent answers at two addresses; the resolution of the first
  address returns its card, and after initialization the connection stored under the
  name of the card is built from the second address, not from the first.
\<close>

theorem create_bootstrap_counterexample:
  "fst (create resolver_same json_dumps_cards [''http://0.0.0.0:10001'', ''http://localhost:10001''] [])
     = Inr (example_agent\<lparr>remote_agent_connections :=
              [(''inspiration_agent'',
                \<lparr>conn_card = inspiration_card, conn_address = ''http://localhost:10001''\<rparr>)]\<rparr>)
   \<and> resolver_same ''http://0.0.0.0:10001'' = Inr inspiration_card
   \<and> dict_get [(''inspiration_agent'',
                \<lparr>conn_card = inspiration_card, conn_address = ''http://localhost:10001''\<rparr>)]
         (name inspiration_card)
       \<noteq> Some \<lparr>conn_card = inspiration_card, conn_address = ''http://0.0.0.0:10001''\<rparr>"
  by (simp add: create_def async_init_components_def async_init_address_def resolver_same_def
        TravelHostAgent_init_def example_agent_def inspiration_card_def Let_def dict_values_def
        card_info_def dict_get_def)

text \<open>
  C6, as amended. If resolving the card of an address raises an exception that is an
  instance of \<open>Exception\<close> (a connection error or another one), the exception is caught
  and one line naming the address and the exception is printed, the agent (so both
  dictionaries) is unchanged, and the loop goes on with the remaining addresses.
\<close>

theorem async_init_caught:
  assumes "get_agent_card address = Inl e" and "isinstance_Exception (Lib e)"
  shows "async_init_address get_agent_card address (self, out)
           = (None, self, out @ [Print [PStr (error_line address e)]])
         \<and> async_init_loop get_agent_card (address # rest) (self, out)
           = async_init_loop get_agent_card rest (self, out @ [Print [PStr (error_line address e)]])"
  using assms by (simp add: async_init_address_caught)

theorem async_init_caught_witness:
  "resolver_up ''http://localhost:10003'' = Inl (ConnectError ''All connection attempts failed'')
   \<and> isinstance_Exception (Lib (ConnectError ''All connection attempts failed''))
   \<and> async_init_address resolver_up ''http://localhost:10003'' (TravelHostAgent_init, [])
       = (None, TravelHostAgent_init,
          [Print [PStr ''ERROR: Failed to get agent card from http://localhost:10003: All connection attempts failed'']])
   \<and> async_init_loop resolver_up [''http://localhost:10003'', ''http://0.0.0.0:10001'']
         (TravelHostAgent_init, [])
       = async_init_loop resolver_up [''http://0.0.0.0:10001'']
           (TravelHostAgent_init,
            [Print [PStr ''ERROR: Failed to get agent card from http://localhost:10003: All connection attempts failed'']])"
proof -
  have f: "resolver_up ''http://localhost:10003'' = Inl (ConnectError ''All connection attempts failed'')"
    by (simp add: resolver_up_def)
  have i: "isinstance_Exception (Lib (ConnectError ''All connection attempts failed''))"
    by simp
  from async_init_caught [where get_agent_card = resolver_up
      and address = "''http://localhost:10003''"
      and e = "ConnectError ''All connection attempts failed''"
      and self = TravelHostAgent_init and out = "[]" and rest = "[''http://0.0.0.0:10001'']", OF f i]
    f i
  show ?thesis by (simp add: error_line_def)
qed

text \<open>
  C6 as stated fails for an exception outside \<open>Exception\<close>: when the task is cancelled
  during the first resolution, \<open>asyncio.CancelledError\<close> leaves
  \<open>_async_init_components\<close>, nothing is printed, and the second address, which
  would answer, is not processed.
\<close>

theorem async_init_caught_counterexample:
  "resolver_cancelled ''http://0.0.0.0:10001'' = Inl (LibBaseException ''asyncio.CancelledError'' [])
   \<and> resolver_cancelled ''http://localhost:10003'' = Inr inspiration_card
   \<and> async_init_components resolver_cancelled json_dumps_cards
        [''http://0.0.0.0:10001'', ''http://localhost:10003''] (TravelHostAgent_init, [])
      = (Some (Lib (LibBaseException ''asyncio.CancelledError'' [])), TravelHostAgent_init, [])"
  by (simp add: async_init_components_def async_init_address_def resolver_cancelled_def)

subsection \<open>The system prompt\<close>

lemma find_name: "find (\<lambda>d. name d = n) xs = Some d \<Longrightarrow> name d = n"
  by (auto simp: find_Some_iff)

lemma name_pick:
  "name (case find (\<lambda>d. name d = name c) xs of Some d \<Rightarrow> d | None \<Rightarrow> c) = name c"
  by (auto split: option.splits dest: find_name)

lemma map_snd_keyed: "map snd (keyed l) = l"
  by (simp add: keyed_def comp_def)

lemma keyed_Cons: "keyed (c # l) = (name c, c) # keyed l"
  by (simp add: keyed_def)

lemma listed_cards_snoc:
  "listed_cards (cs @ [c]) = map snd (dict_set (keyed (listed_cards cs)) (name c) c)"
proof (induction cs rule: listed_cards.induct)
  case 1
  show ?case by (simp add: keyed_def)
next
  case (2 c0 cs)
  show ?case
  proof (cases "name c = name c0")
    case True
    then show ?thesis by (simp add: keyed_Cons name_pick map_snd_keyed)
  next
    case False
    then have "name c0 \<noteq> name c" by simp
    with False "2.IH" show ?thesis by (simp add: keyed_Cons name_pick)
  qed
qed

lemma keyed_dict_set:
  "keyed (map snd (dict_set (keyed l) (name c) c)) = dict_set (keyed l) (name c) c"
  by (induction l) (auto simp: keyed_Cons, simp_all add: keyed_def)

lemma resolved_cards_snoc:
  "resolved_cards g (addrs @ [a]) =
     resolved_cards g addrs @ (case g a of Inr c \<Rightarrow> [c] | Inl e \<Rightarrow> [])"
  by (simp add: resolved_cards_def)

lemma async_init_loop_listed:
  "async_init_loop g addrs (TravelHostAgent_init, out) = (None, self', out') \<Longrightarrow>
   cards self' = keyed (listed_cards (resolved_cards g addrs))"
proof (induction addrs arbitrary: self' out' rule: rev_induct)
  case Nil
  then show ?case by (auto simp: TravelHostAgent_init_def resolved_cards_def keyed_def)
next
  case (snoc a addrs)
  obtain r1 self1 out1 where pre: "async_init_loop g addrs (TravelHostAgent_init, out) = (r1, self1, out1)"
    by (cases "async_init_loop g addrs (TravelHostAgent_init, out)") auto
  from snoc.prems pre have r1: "r1 = None"
    by (cases r1) (auto simp: async_init_loop_append)
  with snoc.prems pre have step: "async_init_address g a (self1, out1) = (None, self', out')"
    by (auto simp: async_init_loop_append split: prod.splits option.splits)
  from snoc.IH pre r1 have IH: "cards self1 = keyed (listed_cards (resolved_cards g addrs))"
    by simp
  show ?case
  proof (cases rule: async_init_address_cases [of g a])
    case (ok c)
    with step have "cards self' = dict_set (cards self1) (name c) c"
      by (auto simp: async_init_address_ok)
    with IH ok show ?thesis
      by (simp add: resolved_cards_snoc listed_cards_snoc keyed_dict_set)
  next
    case (caught e)
    with step have "cards self' = cards self1" by (auto simp: async_init_address_caught)
    with IH caught show ?thesis by (simp add: resolved_cards_snoc)
  next
    case (raised e)
    with step show ?thesis by (simp add: async_init_address_raised)
  qed
qed

lemma listed_cards_distinct: "distinct (map name cs) \<Longrightarrow> listed_cards cs = cs"
proof (induction cs)
  case Nil
  show ?case by simp
next
  case (Cons c cs)
  from Cons.prems have "name c \<notin> name ` set cs"
    by simp
  then have fresh: "\<forall>d\<in>set cs. name d \<noteq> name c"
    by (metis imageI)
  then have none: "find (\<lambda>d. name d = name c) (rev cs) = None"
    by (simp add: find_None_iff)
  from fresh have "filter (\<lambda>d. name d \<noteq> name c) cs = cs"
    by (simp add: filter_id_conv)
  with Cons none show ?case by simp
qed

lemma listed_cards_Nil: "listed_cards cs = [] \<longleftrightarrow> cs = []"
  by (cases cs) simp_all

lemma check_active_agent_of:
  "check_active_agent str_of state = [(''active_agent'', active_agent_of str_of state)]"
  by (simp add: check_active_agent_def active_agent_of_def dict_in_iff split: option.splits)

text \<open>
  C7, as amended. When \<open>create\<close> returns the instance, \<open>self.agents\<close> is the string
  \<open>No agents found\<close> when no card was resolved, and otherwise the newline-joined JSON
  objects (name and description) of the cards held in \<open>self.cards\<close>, in insertion
  order: for each name among the resolved cards, at the place of the first card of that
  name, the last resolved card of that name (a card replaced by a later card of the same
  name is not listed); these are all the resolved cards, in the order of the addresses,
  when their names are distinct. \<open>root_instruction\<close> returns a prompt that contains
  \<open>self.agents\<close> and the trip context drawn from the session state: destination
  (default \<open>Not determined\<close>), start date and end date (default \<open>Not set\<close>) and
  the active agent (\<open>None\<close> unless the state has a session id, an active session and
  an active agent).
\<close>

theorem agents_and_prompt:
  assumes "create get_agent_card json_dumps remote_agent_addresses out = (Inr self, out')"
  shows "dict_values (cards self)
           = listed_cards (resolved_cards get_agent_card remote_agent_addresses)
         \<and> agents self =
             (if resolved_cards get_agent_card remote_agent_addresses = [] then ''No agents found''
              else join ''\<newline>''
                     (map (card_info json_dumps)
                        (listed_cards (resolved_cards get_agent_card remote_agent_addresses))))
         \<and> (distinct (map name (resolved_cards get_agent_card remote_agent_addresses))
              \<longrightarrow> listed_cards (resolved_cards get_agent_card remote_agent_addresses)
                    = resolved_cards get_agent_card remote_agent_addresses)
         \<and> (\<exists>prompt.
               root_instruction str_of json_dumps_indent current_time self state = Inr prompt
               \<and> sublist (agents self) prompt
               \<and> sublist (''Destination: '' @ trip_field str_of state ''destination'' ''Not determined'') prompt
               \<and> sublist (''Start Date: '' @ trip_field str_of state ''start_date'' ''Not set'') prompt
               \<and> sublist (''End Date: '' @ trip_field str_of state ''end_date'' ''Not set'') prompt
               \<and> sublist (''Active Agent: '' @ active_agent_of str_of state) prompt)"
proof -
  let ?R = "resolved_cards get_agent_card remote_agent_addresses"
  from assms obtain self0 out0 where
    loop: "async_init_loop get_agent_card remote_agent_addresses (TravelHostAgent_init, out)
             = (None, self0, out0)"
    and c: "cards self = cards self0"
    and a: "agents self = (if cards self0 = [] then ''No agents found''
                    else join ''\<newline>'' (map (card_info json_dumps) (dict_values (cards self0))))"
    by (rule create_Inr)
  have k: "cards self0 = keyed (listed_cards ?R)"
    using async_init_loop_listed [OF loop] .
  have 1: "dict_values (cards self) = listed_cards ?R"
    by (simp add: c k dict_values_def map_snd_keyed)
  have e: "cards self0 = [] \<longleftrightarrow> ?R = []"
    by (simp add: k keyed_def listed_cards_Nil)
  have 2: "agents self =
             (if ?R = [] then ''No agents found''
              else join ''\<newline>'' (map (card_info json_dumps) (listed_cards ?R)))"
    using a e 1 c by simp
  have 3: "listed_cards ?R = ?R" if "distinct (map name ?R)"
    using that by (rule listed_cards_distinct)
  let ?a = "active_agent_of str_of state"
  obtain profile where r: "root_instruction str_of json_dumps_indent current_time self state =
     Inr (instruction_role @ agents self
          @ instruction_context @ current_time
          @ instruction_profile @ profile
          @ instruction_trip
          @ ''\<newline>        Destination: '' @ trip_field str_of state ''destination'' ''Not determined''
          @ ''\<newline>        Start Date: '' @ trip_field str_of state ''start_date'' ''Not set''
          @ ''\<newline>        End Date: '' @ trip_field str_of state ''end_date'' ''Not set''
          @ ''\<newline>        Active Agent: '' @ ?a
          @ ''\<newline>        ''
          @ instruction_directives)" (is "_ = Inr ?p")
    using root_instruction_form [OF check_active_agent_of] by blast
  have s0: "sublist (agents self) ?p" by (rule sublist_second)
  have l1: "''\<newline>        Destination: '' = ''\<newline>        '' @ ''Destination: ''"
    and l2: "''\<newline>        Start Date: '' = ''\<newline>        '' @ ''Start Date: ''"
    and l3: "''\<newline>        End Date: '' = ''\<newline>        '' @ ''End Date: ''"
    and l4: "''\<newline>        Active Agent: '' = ''\<newline>        '' @ ''Active Agent: ''"
    by simp_all
  have s1: "sublist (''Destination: '' @ trip_field str_of state ''destination'' ''Not determined'') ?p"
    unfolding l1
    using sublist_field [of "''Destination: ''" _ "instruction_role @ agents self
          @ instruction_context @ current_time
          @ instruction_profile @ profile
          @ instruction_trip" "''\<newline>        ''"]
    by (simp only: append_assoc)
  have s2: "sublist (''Start Date: '' @ trip_field str_of state ''start_date'' ''Not set'') ?p"
    unfolding l2
    using sublist_field [of "''Start Date: ''" _ "instruction_role @ agents self
          @ instruction_context @ current_time
          @ instruction_profile @ profile
          @ instruction_trip
          @ ''\<newline>        Destination: '' @ trip_field str_of state ''destination'' ''Not determined''"
          "''\<newline>        ''"]
    by (simp only: append_assoc)
  have s3: "sublist (''End Date: '' @ trip_field str_of state ''end_date'' ''Not set'') ?p"
    unfolding l3
    using sublist_field [of "''End Date: ''" _ "instruction_role @ agents self
          @ instruction_context @ current_time
          @ instruction_profile @ profile
          @ instruction_trip
          @ ''\<newline>        Destination: '' @ trip_field str_of state ''destination'' ''Not determined''
          @ ''\<newline>        Start Date: '' @ trip_field str_of state ''start_date'' ''Not set''"
          "''\<newline>        ''"]
    by (simp only: append_assoc)
  have s4: "sublist (''Active Agent: '' @ ?a) ?p"
    unfolding l4
    using sublist_field [of "''Active Agent: ''" _ "instruction_role @ agents self
          @ instruction_context @ current_time
          @ instruction_profile @ profile
          @ instruction_trip
          @ ''\<newline>        Destination: '' @ trip_field str_of state ''destination'' ''Not determined''
          @ ''\<newline>        Start Date: '' @ trip_field str_of state ''start_date'' ''Not set''
          @ ''\<newline>        End Date: '' @ trip_field str_of state ''end_date'' ''Not set''"
          "''\<newline>        ''"]
    by (simp only: append_assoc)
  from 1 2 3 r s0 s1 s2 s3 s4 show ?thesis by blast
qed

lemma fleet_resolved:
  "resolved_cards resolver_fleet
     [''http://0.0.0.0:10001'', ''http://0.0.0.0:10002'', ''http://0.0.0.0:10003'']
   = [inspiration_card, planning_card, inspiration_card_v2]"
  "resolved_cards resolver_fleet [''http://0.0.0.0:10001'', ''http://0.0.0.0:10002'']
   = [inspiration_card, planning_card]"
  by (simp_all add: resolved_cards_def resolver_fleet_def)

lemma fleet_listed:
  "listed_cards [inspiration_card, planning_card, inspiration_card_v2]
     = [inspiration_card_v2, planning_card]"
  by (simp add: inspiration_card_def planning_card_def inspiration_card_v2_def)

lemma fleet_create:
  "create resolver_fleet json_dumps_cards
     [''http://0.0.0.0:10001'', ''http://0.0.0.0:10002'', ''http://0.0.0.0:10003''] []
   = (Inr fleet_agent,
      [Print [PStr ''agent_info:'',
              PList [PStr (card_info json_dumps_cards inspiration_card_v2),
                     PStr (card_info json_dumps_cards planning_card)]]])"
  by (simp add: create_def async_init_components_def async_init_address_def resolver_fleet_def
        TravelHostAgent_init_def fleet_agent_def inspiration_card_def planning_card_def
        inspiration_card_v2_def Let_def dict_values_def)

lemma fleet_create_distinct:
  "create resolver_fleet json_dumps_cards
     [''http://0.0.0.0:10001'', ''http://0.0.0.0:10002''] []
   = (Inr \<lparr>remote_agent_connections =
              [(''inspiration_agent'',
                \<lparr>conn_card = inspiration_card, conn_address = ''http://0.0.0.0:10001''\<rparr>),
               (''planning_agent'',
                \<lparr>conn_card = planning_card, conn_address = ''http://0.0.0.0:10002''\<rparr>)],
            cards = [(''inspiration_agent'', inspiration_card), (''planning_agent'', planning_card)],
            agents = card_info json_dumps_cards inspiration_card @ ''\<newline>''
                     @ card_info json_dumps_cards planning_card\<rparr>,
      [Print [PStr ''agent_info:'',
              PList [PStr (card_info json_dumps_cards inspiration_card),
                     PStr (card_info json_dumps_cards planning_card)]]])"
  by (simp add: create_def async_init_components_def async_init_address_def resolver_fleet_def
        TravelHostAgent_init_def inspiration_card_def planning_card_def Let_def dict_values_def)

theorem agents_and_prompt_witness:
  "fst (create resolver_fleet json_dumps_cards
          [''http://0.0.0.0:10001'', ''http://0.0.0.0:10002'', ''http://0.0.0.0:10003''] [])
     = Inr fleet_agent
   \<and> resolved_cards resolver_fleet
        [''http://0.0.0.0:10001'', ''http://0.0.0.0:10002'', ''http://0.0.0.0:10003'']
       = [inspiration_card, planning_card, inspiration_card_v2]
   \<and> dict_values (cards fleet_agent) = [inspiration_card_v2, planning_card]
   \<and> agents fleet_agent
       = card_info json_dumps_cards inspiration_card_v2 @ ''\<newline>''
         @ card_info json_dumps_cards planning_card
   \<and> distinct (map name (resolved_cards resolver_fleet
                             [''http://0.0.0.0:10001'', ''http://0.0.0.0:10002'']))
   \<and> listed_cards (resolved_cards resolver_fleet
                      [''http://0.0.0.0:10001'', ''http://0.0.0.0:10002''])
       = [inspiration_card, planning_card]
   \<and> (\<exists>prompt.
         root_instruction (\<lambda>v. ''None'') json_dumps_cards ''2025-05-01 09:00:00'' fleet_agent
           session_state = Inr prompt
         \<and> sublist (card_info json_dumps_cards inspiration_card_v2 @ ''\<newline>''
                     @ card_info json_dumps_cards planning_card) prompt
         \<and> sublist ''Destination: Lisbon'' prompt
         \<and> sublist ''Start Date: 2025-06-01'' prompt
         \<and> sublist ''End Date: Not set'' prompt
         \<and> sublist ''Active Agent: planning_agent'' prompt)"
proof -
  note A = agents_and_prompt [OF fleet_create, where str_of = "\<lambda>v. ''None''"
      and state = session_state and json_dumps_indent = json_dumps_cards
      and current_time = "''2025-05-01 09:00:00''"]
  note B = agents_and_prompt [OF fleet_create_distinct, where str_of = "\<lambda>v. ''None''"
      and state = session_state and json_dumps_indent = json_dumps_cards
      and current_time = "''2025-05-01 09:00:00''"]
  have t: "trip_field (\<lambda>v. ''None'') session_state ''destination'' ''Not determined'' = ''Lisbon''"
    "trip_field (\<lambda>v. ''None'') session_state ''start_date'' ''Not set'' = ''2025-06-01''"
    "trip_field (\<lambda>v. ''None'') session_state ''end_date'' ''Not set'' = ''Not set''"
    by (simp_all add: trip_field_def session_state_def dict_get_def fstr_def)
  have a: "active_agent_of (\<lambda>v. ''None'') session_state = ''planning_agent''"
    by (simp add: active_agent_of_def session_state_def dict_get_def fstr_def)
  have d: "distinct (map name (resolved_cards resolver_fleet
                             [''http://0.0.0.0:10001'', ''http://0.0.0.0:10002'']))"
    by (simp add: fleet_resolved inspiration_card_def planning_card_def)
  note A' = A [unfolded fleet_resolved fleet_listed]
  note B' = B [unfolded fleet_resolved]
  from B' d [unfolded fleet_resolved] have 6: "listed_cards (resolved_cards resolver_fleet
                      [''http://0.0.0.0:10001'', ''http://0.0.0.0:10002''])
       = [inspiration_card, planning_card]"
    by (simp add: fleet_resolved del: listed_cards.simps)
  from A' have 3: "dict_values (cards fleet_agent) = [inspiration_card_v2, planning_card]"
    by (simp del: listed_cards.simps)
  from A' have 4: "agents fleet_agent
       = card_info json_dumps_cards inspiration_card_v2 @ ''\<newline>''
         @ card_info json_dumps_cards planning_card"
    by (simp del: listed_cards.simps)
  from A' have E: "\<exists>prompt.
         root_instruction (\<lambda>v. ''None'') json_dumps_cards ''2025-05-01 09:00:00'' fleet_agent
           session_state = Inr prompt
         \<and> sublist (agents fleet_agent) prompt
         \<and> sublist ''Destination: Lisbon'' prompt
         \<and> sublist ''Start Date: 2025-06-01'' prompt
         \<and> sublist ''End Date: Not set'' prompt
         \<and> sublist ''Active Agent: planning_agent'' prompt"
    unfolding t a by (auto simp del: listed_cards.simps)
  have 1: "fst (create resolver_fleet json_dumps_cards
          [''http://0.0.0.0:10001'', ''http://0.0.0.0:10002'', ''http://0.0.0.0:10003''] [])
     = Inr fleet_agent"
    by (simp add: fleet_create)
  from 1 fleet_resolved(1) 3 4 d 6 E [unfolded 4] show ?thesis by (intro conjI)
qed

text \<open>
  C7 as stated fails: two versions of the agent answer at two addresses under one name
  with different descriptions. Both cards are resolved; \<open>self.agents\<close> is the JSON
  object of the second card alone, not the newline-joined objects of the two.
\<close>

theorem agents_and_prompt_counterexample:
  "resolved_cards resolver_versions [''http://0.0.0.0:10001'', ''http://localhost:10003'']
     = [inspiration_card, inspiration_card\<lparr>description := ''Suggests places to visit''\<rparr>]
   \<and> fst (create resolver_versions json_dumps_cards
            [''http://0.0.0.0:10001'', ''http://localhost:10003''] [])
     = Inr \<lparr>remote_agent_connections =
              [(''inspiration_agent'',
                \<lparr>conn_card = inspiration_card\<lparr>description := ''Suggests places to visit''\<rparr>,
                   conn_address = ''http://localhost:10003''\<rparr>)],
            cards = [(''inspiration_agent'',
                      inspiration_card\<lparr>description := ''Suggests places to visit''\<rparr>)],
            agents = card_info json_dumps_cards
                       (inspiration_card\<lparr>description := ''Suggests places to visit''\<rparr>)\<rparr>
   \<and> card_info json_dumps_cards (inspiration_card\<lparr>description := ''Suggests places to visit''\<rparr>)
     \<noteq> join ''\<newline>'' (map (card_info json_dumps_cards)
           (resolved_cards resolver_versions [''http://0.0.0.0:10001'', ''http://localhost:10003'']))"
proof -
  have r: "resolved_cards resolver_versions [''http://0.0.0.0:10001'', ''http://localhost:10003'']
     = [inspiration_card, inspiration_card\<lparr>description := ''Suggests places to visit''\<rparr>]"
    by (simp add: resolved_cards_def resolver_versions_def)
  have c: "fst (create resolver_versions json_dumps_cards
            [''http://0.0.0.0:10001'', ''http://localhost:10003''] [])
     = Inr \<lparr>remote_agent_connections =
              [(''inspiration_agent'',
                \<lparr>conn_card = inspiration_card\<lparr>description := ''Suggests places to visit''\<rparr>,
                   conn_address = ''http://localhost:10003''\<rparr>)],
            cards = [(''inspiration_agent'',
                      inspiration_card\<lparr>description := ''Suggests places to visit''\<rparr>)],
            agents = card_info json_dumps_cards
                       (inspiration_card\<lparr>description := ''Suggests places to visit''\<rparr>)\<rparr>"
    by (simp add: create_def async_init_components_def async_init_address_def
          resolver_versions_def TravelHostAgent_init_def inspiration_card_def Let_def
          dict_values_def)
  have n: "x \<noteq> y @ ''\<newline>'' @ x" for x y :: string
  proof
    assume "x = y @ ''\<newline>'' @ x"
    then have "length x = length (y @ ''\<newline>'' @ x)" by simp
    then show False by simp
  qed
  show ?thesis unfolding r using c n by simp
qed

subsection \<open>Sending a message\<close>

lemma input_message_id_error:
  "input_message_id state = Inl e \<Longrightarrow> \<exists>m. e = TypeError m"
proof (cases "dict_get state ''input_message_metadata''")
  case None
  then show "input_message_id state = Inl e \<Longrightarrow> ?thesis" by (simp add: input_message_id_def)
next
  case (Some v)
  then show "input_message_id state = Inl e \<Longrightarrow> ?thesis"
    by (cases v) (auto simp: input_message_id_def)
qed

lemma build_request_no_ValueError: "build_request lib task uuids state \<noteq> Inl (ValueError m)"
proof
  assume a: "build_request lib task uuids state = Inl (ValueError m)"
  obtain u1 u2 u3 where u: "uuids = (u1, u2, u3)" by (cases uuids) auto
  show False
  proof (cases "input_message_id state")
    case (Inl e)
    with a u have "e = ValueError m" by (simp add: build_request_def Let_def)
    with input_message_id_error [OF Inl] show False by auto
  next
    case (Inr message_id)
    with a u show False
      by (simp add: build_request_def Let_def split: sum.splits)
  qed
qed

lemma send_message_absent:
  "\<not> dict_in agent_name (remote_agent_connections self) \<Longrightarrow>
   send_message lib self agent_name task uuids (state, out)
     = (Inl (ValueError (''Agent '' @ agent_name @ '' not found'')), state, out)"
  by (simp add: send_message_def)

lemma send_message_present:
  "dict_get (remote_agent_connections self) agent_name = Some client \<Longrightarrow>
   send_message lib self agent_name task uuids (state, out)
     = (let state = dict_set state ''active_agent'' (PStr agent_name) in
        case build_request lib task uuids state of
          Inl e \<Rightarrow> (Inl e, state, out)
        | Inr message_request \<Rightarrow>
           (case client_send_message lib client message_request of
              Inl e \<Rightarrow> (Inl (Lib e), state, out)
            | Inr send_response \<Rightarrow>
               (let out = out @ [Print [PStr ''send_response'',
                                        PStr (model_dump_json lib send_response)]]
                in case send_response of
                     JSONRPCErrorResponse err \<Rightarrow>
                       (Inr None, state,
                        out @ [Print [PStr ''received non-success response. Aborting get task '']])
                   | SendMessageSuccessResponse (Message m) \<Rightarrow>
                       (Inr None, state,
                        out @ [Print [PStr ''received non-task response. Aborting get task '']])
                   | SendMessageSuccessResponse (Task t) \<Rightarrow> (Inr (Some t), state, out))))"
  by (simp add: send_message_def dict_in_iff truthy_conn_def Let_def)

lemma example_build_request:
  "build_request (example_lib r) ''Find a beach'' example_uuids
     (dict_set [] ''active_agent'' (PStr ''inspiration_agent'')) = Inr example_request"
  by (simp add: build_request_def input_message_id_def message_payload_def example_lib_def
        example_uuids_def example_request_def dict_get_def Let_def)

lemma example_build_request_down:
  "build_request example_lib_down ''Find a beach'' example_uuids
     (dict_set [] ''active_agent'' (PStr ''inspiration_agent'')) = Inr example_request"
  by (simp add: build_request_def input_message_id_def message_payload_def
        example_lib_down_def example_lib_def example_uuids_def example_request_def dict_get_def
        Let_def)

lemma example_client:
  "dict_get (remote_agent_connections example_agent) ''inspiration_agent''
     = Some \<lparr>conn_card = inspiration_card, conn_address = ''http://0.0.0.0:10001''\<rparr>"
  by (simp add: example_agent_def dict_get_def)

lemma build_request_Lib:
  assumes "build_request lib task uuids state = Inl (Lib l)"
  shows "(\<exists>payload. model_validate lib payload = Inl l)
         \<or> (\<exists>request_id params. SendMessageRequest lib request_id params = Inl l)"
proof -
  obtain u1 u2 u3 where u: "uuids = (u1, u2, u3)" by (cases uuids) auto
  show ?thesis
  proof (cases "input_message_id state")
    case (Inl e)
    with assms u have "e = Lib l" by (simp add: build_request_def Let_def)
    with input_message_id_error [OF Inl] show ?thesis by auto
  next
    case (Inr message_id)
    with assms u show ?thesis
      by (auto simp: build_request_def Let_def split: sum.splits)
  qed
qed

lemma build_request_ValueError:
  assumes "build_request lib task uuids state = Inl e" and "isinstance_ValueError e"
  shows "\<exists>c m. e = Lib (LibValueError c m)"
proof (cases e)
  case (ValueError m)
  with assms(1) build_request_no_ValueError show ?thesis by blast
next
  case (Lib l)
  with assms(2) show ?thesis by (cases l) simp_all
qed (use assms(2) in simp_all)

lemma example_present:
  "dict_in ''inspiration_agent'' (remote_agent_connections example_agent)"
  by (simp add: dict_in_iff example_client)

lemma example_pydantic_run:
  "send_message example_lib_pydantic example_agent ''inspiration_agent'' ''Find a beach''
     example_uuids ([(''task_id'', PInt 123)], [])
   = (Inl (Lib (LibValueError ''pydantic_core._pydantic_core.ValidationError''
                  ''1 validation error for MessageSendParams'')),
      [(''task_id'', PInt 123), (''active_agent'', PStr ''inspiration_agent'')], [])"
  unfolding send_message_present [OF example_client] Let_def
  by (simp add: build_request_def input_message_id_def message_payload_def
        example_lib_pydantic_def example_lib_def example_uuids_def dict_get_def Let_def)

text \<open>
  C9, as amended. \<open>send_message\<close> raises its own \<open>ValueError\<close> exactly when
  \<open>agent_name\<close> is not a key of \<open>self.remote_agent_connections\<close>, and then the
  session state is as it was; when the name is a key, the state the call leaves has
  \<open>active_agent\<close> set to \<open>agent_name\<close>, whatever the library calls that follow
  do (return or raise), so it is set before the message is sent, and an exception that is
  a \<open>ValueError\<close> leaves \<open>send_message\<close> only when one of the library calls
  (\<open>MessageSendParams.model_validate\<close>, \<open>SendMessageRequest\<close>,
  \<open>client.send_message\<close>) raises it.
\<close>

theorem send_message_ValueError:
  "((\<exists>m. fst (send_message lib self agent_name task uuids (state, out)) = Inl (ValueError m))
      \<longleftrightarrow> \<not> dict_in agent_name (remote_agent_connections self))
   \<and> fst (snd (send_message lib self agent_name task uuids (state, out)))
       = (if dict_in agent_name (remote_agent_connections self)
          then dict_set state ''active_agent'' (PStr agent_name) else state)
   \<and> dict_get (fst (snd (send_message lib self agent_name task uuids (state, out)))) ''active_agent''
       = (if dict_in agent_name (remote_agent_connections self)
          then Some (PStr agent_name) else dict_get state ''active_agent'')
   \<and> (\<forall>e. fst (send_message lib self agent_name task uuids (state, out)) = Inl e
            \<and> isinstance_ValueError e \<and> dict_in agent_name (remote_agent_connections self)
          \<longrightarrow> (\<exists>c m. e = Lib (LibValueError c m)
                 \<and> ((\<exists>payload. model_validate lib payload = Inl (LibValueError c m))
                    \<or> (\<exists>request_id params.
                          SendMessageRequest lib request_id params = Inl (LibValueError c m))
                    \<or> (\<exists>client message_request.
                          client_send_message lib client message_request
                            = Inl (LibValueError c m)))))"
proof (cases "dict_get (remote_agent_connections self) agent_name")
  case None
  then have "\<not> dict_in agent_name (remote_agent_connections self)"
    by (simp add: dict_in_iff)
  then show ?thesis by (simp add: send_message_absent)
next
  case (Some client)
  then have present: "dict_in agent_name (remote_agent_connections self)"
    by (simp add: dict_in_iff)
  let ?state = "dict_set state ''active_agent'' (PStr agent_name)"
  let ?R = "send_message lib self agent_name task uuids (state, out)"
  have own: "\<not> (\<exists>m. fst ?R = Inl (ValueError m))"
    using build_request_no_ValueError [of lib task uuids ?state]
    by (auto simp: send_message_present [OF Some] Let_def
          split: sum.splits SendMessageResponse.splits a2a_result.splits)
  have st: "fst (snd ?R) = ?state"
    by (auto simp: send_message_present [OF Some] Let_def
          split: sum.splits SendMessageResponse.splits a2a_result.splits)
  have lib: "\<exists>c m. e = Lib (LibValueError c m)
                 \<and> ((\<exists>payload. model_validate lib payload = Inl (LibValueError c m))
                    \<or> (\<exists>request_id params.
                          SendMessageRequest lib request_id params = Inl (LibValueError c m))
                    \<or> (\<exists>client message_request.
                          client_send_message lib client message_request
                            = Inl (LibValueError c m)))"
    if r: "fst ?R = Inl e" and v: "isinstance_ValueError e" for e
  proof (cases "build_request lib task uuids ?state")
    case (Inl e')
    with r have "e' = e" by (simp add: send_message_present [OF Some] Let_def)
    with Inl have b: "build_request lib task uuids ?state = Inl e" by simp
    from build_request_ValueError [OF b v] obtain c m where e: "e = Lib (LibValueError c m)"
      by blast
    with build_request_Lib [of lib task uuids ?state "LibValueError c m"] b show ?thesis
      by blast
  next
    case (Inr message_request)
    show ?thesis
    proof (cases "client_send_message lib client message_request")
      case (Inl l)
      with r Inr have e: "e = Lib l" by (simp add: send_message_present [OF Some] Let_def)
      with v obtain c m where "l = LibValueError c m" by (cases l) simp_all
      with e Inl show ?thesis by blast
    next
      case (Inr send_response)
      with r \<open>build_request lib task uuids ?state = Inr message_request\<close> show ?thesis
        by (simp add: send_message_present [OF Some] Let_def
              split: SendMessageResponse.splits a2a_result.splits)
    qed
  qed
  from own st lib present show ?thesis by (simp add: dict_get_dict_set)
qed

theorem send_message_ValueError_witness:
  "dict_in ''inspiration_agent'' (remote_agent_connections example_agent)
   \<and> fst (send_message example_lib_pydantic example_agent ''inspiration_agent'' ''Find a beach''
            example_uuids ([(''task_id'', PInt 123)], []))
       = Inl (Lib (LibValueError ''pydantic_core._pydantic_core.ValidationError''
                     ''1 validation error for MessageSendParams''))
   \<and> isinstance_ValueError (Lib (LibValueError ''pydantic_core._pydantic_core.ValidationError''
                     ''1 validation error for MessageSendParams''))
   \<and> model_validate example_lib_pydantic
        (message_payload ''Find a beach'' (PStr ''c3a1b2d4-0f9e-4a7b-b6c5-9e8d7f6a5b44'')
           (PInt 123) (PStr ''7d1f5a52-91c3-4e0b-8a44-6b1e2d3c4f55''))
       = Inl (LibValueError ''pydantic_core._pydantic_core.ValidationError''
                ''1 validation error for MessageSendParams'')
   \<and> fst (snd (send_message example_lib_pydantic example_agent ''inspiration_agent''
                 ''Find a beach'' example_uuids ([(''task_id'', PInt 123)], [])))
       = [(''task_id'', PInt 123), (''active_agent'', PStr ''inspiration_agent'')]
   \<and> \<not> dict_in ''booking_agent'' (remote_agent_connections example_agent)
   \<and> fst (send_message example_lib_pydantic example_agent ''booking_agent'' ''Book it''
            example_uuids ([(''task_id'', PInt 123)], []))
       = Inl (ValueError ''Agent booking_agent not found'')
   \<and> fst (snd (send_message example_lib_pydantic example_agent ''booking_agent'' ''Book it''
                 example_uuids ([(''task_id'', PInt 123)], [])))
       = [(''task_id'', PInt 123)]"
proof -
  have absent: "\<not> dict_in ''booking_agent'' (remote_agent_connections example_agent)"
    by (simp add: dict_in_def dict_keys_def example_agent_def)
  have mv: "model_validate example_lib_pydantic
        (message_payload ''Find a beach'' (PStr ''c3a1b2d4-0f9e-4a7b-b6c5-9e8d7f6a5b44'')
           (PInt 123) (PStr ''7d1f5a52-91c3-4e0b-8a44-6b1e2d3c4f55''))
       = Inl (LibValueError ''pydantic_core._pydantic_core.ValidationError''
                ''1 validation error for MessageSendParams'')"
    by (simp add: message_payload_def example_lib_pydantic_def example_lib_def dict_get_def
          Let_def)
  have raised: "fst (send_message example_lib_pydantic example_agent ''booking_agent''
            ''Book it'' example_uuids ([(''task_id'', PInt 123)], []))
       = Inl (ValueError ''Agent booking_agent not found'')"
    by (simp add: send_message_absent [OF absent])
  from send_message_ValueError [of example_lib_pydantic example_agent "''inspiration_agent''"
      "''Find a beach''" example_uuids "[(''task_id'', PInt 123)]" "[]"]
    send_message_ValueError [of example_lib_pydantic example_agent "''booking_agent''"
      "''Book it''" example_uuids "[(''task_id'', PInt 123)]" "[]"]
    example_present absent example_pydantic_run mv raised
  show ?thesis by simp
qed

text \<open>
  C9 as stated fails: the agent name is a key and the session state holds the task id
  \<open>123\<close>, not a string; \<open>MessageSendParams.model_validate\<close> raises pydantic's
  \<open>ValidationError\<close>, a subclass of \<open>ValueError\<close>, and it leaves
  \<open>send_message\<close>.
\<close>

theorem send_message_ValueError_counterexample:
  "dict_in ''inspiration_agent'' (remote_agent_connections example_agent)
   \<and> fst (send_message example_lib_pydantic example_agent ''inspiration_agent'' ''Find a beach''
            example_uuids ([(''task_id'', PInt 123)], []))
       = Inl (Lib (LibValueError ''pydantic_core._pydantic_core.ValidationError''
                     ''1 validation error for MessageSendParams''))
   \<and> isinstance_ValueError (Lib (LibValueError ''pydantic_core._pydantic_core.ValidationError''
                     ''1 validation error for MessageSendParams''))"
  using example_present example_pydantic_run by simp

text \<open>
  C3. For an agent name that is a key of \<open>self.remote_agent_connections\<close>, when the
  client is called and returns a response: \<open>send_message\<close> returns \<open>None\<close>,
  without raising, if the response is not a success response or its result is not a
  task, and returns the task if the response is a success response whose result is a task.
\<close>

theorem send_message_response_shape:
  assumes "dict_get (remote_agent_connections self) agent_name = Some client"
    and "build_request lib task uuids (dict_set state ''active_agent'' (PStr agent_name))
           = Inr message_request"
    and "client_send_message lib client message_request = Inr send_response"
  shows "fst (send_message lib self agent_name task uuids (state, out))
           = Inr (case send_response of
                    SendMessageSuccessResponse (Task t) \<Rightarrow> Some t
                  | SendMessageSuccessResponse (Message m) \<Rightarrow> None
                  | JSONRPCErrorResponse err \<Rightarrow> None)"
  using assms
  by (simp add: send_message_present Let_def split: SendMessageResponse.splits a2a_result.splits)

theorem send_message_response_shape_witness:
  "fst (send_message (example_lib (SendMessageSuccessResponse (Task (PDict [(''id'', PStr ''t1'')]))))
          example_agent ''inspiration_agent'' ''Find a beach'' example_uuids ([], []))
     = Inr (Some (PDict [(''id'', PStr ''t1'')]))
   \<and> fst (send_message (example_lib (SendMessageSuccessResponse (Message (PStr ''hello''))))
          example_agent ''inspiration_agent'' ''Find a beach'' example_uuids ([], []))
     = Inr None
   \<and> fst (send_message (example_lib (JSONRPCErrorResponse (PStr ''Internal error'')))
          example_agent ''inspiration_agent'' ''Find a beach'' example_uuids ([], []))
     = Inr None"
proof -
  have c: "client_send_message (example_lib r) client example_request = Inr r" for r client
    by (simp add: example_lib_def)
  show ?thesis
    using send_message_response_shape [OF example_client example_build_request c,
            of "SendMessageSuccessResponse (Task (PDict [(''id'', PStr ''t1'')]))" "[]"]
      send_message_response_shape [OF example_client example_build_request c,
            of "SendMessageSuccessResponse (Message (PStr ''hello''))" "[]"]
      send_message_response_shape [OF example_client example_build_request c,
            of "JSONRPCErrorResponse (PStr ''Internal error'')" "[]"]
    by simp
qed

text \<open>
  C2, as amended. \<open>send_message\<close> has no handler around the call of the client: for
  an agent name that is a key of \<open>self.remote_agent_connections\<close>, an exception that
  \<open>client.send_message\<close> raises, a connection error included, leaves
  \<open>send_message\<close> as it is, after \<open>active_agent\<close> has been set and with
  nothing printed.
\<close>

theorem send_message_propagates:
  assumes "dict_get (remote_agent_connections self) agent_name = Some client"
    and "build_request lib task uuids (dict_set state ''active_agent'' (PStr agent_name))
           = Inr message_request"
    and "client_send_message lib client message_request = Inl e"
  shows "send_message lib self agent_name task uuids (state, out)
           = (Inl (Lib e), dict_set state ''active_agent'' (PStr agent_name), out)"
  using assms by (simp add: send_message_present Let_def)

theorem send_message_propagates_witness:
  "send_message example_lib_down example_agent ''inspiration_agent'' ''Find a beach''
     example_uuids ([], [])
   = (Inl (Lib (ConnectError ''All connection attempts failed'')),
      [(''active_agent'', PStr ''inspiration_agent'')], [])"
proof -
  have c: "client_send_message example_lib_down client example_request
             = Inl (ConnectError ''All connection attempts failed'')" for client
    by (simp add: example_lib_down_def)
  from send_message_propagates [OF example_client example_build_request_down c, of "[]"]
  show ?thesis by simp
qed

text \<open>
  C2 as stated fails: the agent name is a key, the client raises
  \<open>httpx.ConnectError\<close>, and \<open>send_message\<close> raises that error.
\<close>

theorem send_message_catches_counterexample:
  "dict_in ''inspiration_agent'' (remote_agent_connections example_agent)
   \<and> client_send_message example_lib_down
        \<lparr>conn_card = inspiration_card, conn_address = ''http://0.0.0.0:10001''\<rparr> example_request
       = Inl (ConnectError ''All connection attempts failed'')
   \<and> fst (send_message example_lib_down example_agent ''inspiration_agent'' ''Find a beach''
            example_uuids ([], []))
       = Inl (Lib (ConnectError ''All connection attempts failed''))"
proof -
  have 1: "dict_in ''inspiration_agent'' (remote_agent_connections example_agent)"
    by (simp add: dict_in_iff example_client)
  have 2: "client_send_message example_lib_down client example_request
       = Inl (ConnectError ''All connection attempts failed'')" for client
    by (simp add: example_lib_down_def)
  have 3: "fst (send_message example_lib_down example_agent ''inspiration_agent'' ''Find a beach''
            example_uuids ([], []))
       = Inl (Lib (ConnectError ''All connection attempts failed''))"
    unfolding send_message_present [OF example_client] Let_def example_build_request_down
    by (simp add: 2)
  from 1 2 3 show ?thesis by simp
qed

subsection \<open>Relaying the events of a run\<close>

lemma relay_events_spec:
  "relay_events md pf events ending =
     (case dropWhile (\<lambda>ev. \<not> is_final_response ev) events of
        [] \<Rightarrow> (concat (map (relay_event md pf) events), ending)
      | final # after \<Rightarrow>
          (concat (map (relay_event md pf) (takeWhile (\<lambda>ev. \<not> is_final_response ev) events))
           @ relay_event md pf final @ final_message final, None))"
proof (induction events)
  case Nil
  show ?case by simp
next
  case (Cons ev events)
  show ?case
  proof (cases "is_final_response ev")
    case True
    then show ?thesis by (simp add: Let_def)
  next
    case False
    show ?thesis
    proof (cases "dropWhile (\<lambda>ev. \<not> is_final_response ev) events")
      case Nil
      with False Cons.IH show ?thesis
        by (simp add: Let_def del: dropWhile_eq_Nil_conv)
    next
      case (Cons final after)
      with False Cons.IH show ?thesis
        by (simp add: Let_def del: dropWhile_eq_Nil_conv)
    qed
  qed
qed

lemma relay_event_parts:
  "relay_event md pf event = concat (map (relay_part md pf) (content_parts event))"
  by (simp add: relay_event_def)

lemma relay_part_call:
  "function_call part = Some fc \<Longrightarrow>
   relay_part md pf part =
     [[(''role'', ''assistant''),
       (''content'', hammer_and_wrench @ '' **Tool Call: '' @ fstr_name (fc_name fc) @ ''**\<newline>''
                     @ ''```python\<newline>'' @ pf (md fc) @ ''\<newline>```'')]]"
  by (simp add: relay_part_def)

lemma relay_part_response:
  "function_call part = None \<Longrightarrow> function_response part = Some fr \<Longrightarrow>
   \<exists>body. relay_part md pf part =
     [[(''role'', ''assistant''),
       (''content'', high_voltage @ '' **Tool Response from '' @ fstr_name (fr_name fr)
                     @ ''**\<newline>'' @ body)]]"
  by (simp add: relay_part_def Let_def)

lemma relay_part_other:
  "function_call part = None \<Longrightarrow> function_response part = None \<Longrightarrow> relay_part md pf part = []"
  by (simp add: relay_part_def)

lemma joined_text_filter:
  "concat (map (\<lambda>p. case part_text p of Some t \<Rightarrow> t | None \<Rightarrow> [])
             (filter (\<lambda>p. case part_text p of Some t \<Rightarrow> t \<noteq> [] | None \<Rightarrow> False) ps))
   = joined_text ps"
  by (induction ps) (auto simp: joined_text_def split: option.splits)

lemma final_message_text:
  "content_parts event \<noteq> [] \<Longrightarrow>
   final_message event =
     (if joined_text (content_parts event) \<noteq> [] then
        [[(''role'', ''assistant''), (''content'', joined_text (content_parts event))]]
      else [])"
  by (simp add: final_message_def final_response_text_def joined_text_filter)

lemma get_response_yields:
  "run_async message = (events, ending) \<Longrightarrow>
   fst (get_response_from_agent run_async md pf message history out) =
     fst (relay_events md pf events ending)
     @ (case snd (relay_events md pf events ending) of
          None \<Rightarrow> []
        | Some e \<Rightarrow> if isinstance_Exception e then [error_notice] else [])"
  by (simp add: get_response_from_agent_def split: prod.splits option.splits)

lemma example_relay_call:
  "relay_event model_dump_example pformat_example call_event =
     [[(''role'', ''assistant''),
       (''content'', hammer_and_wrench
          @ '' **Tool Call: send_message**\<newline>```python\<newline>{...}\<newline>```'')]]"
  by (simp add: relay_event_def relay_part_def content_parts_def call_event_def fstr_name_def
        model_dump_example_def pformat_example_def)

lemma example_relay_response:
  "relay_event model_dump_example pformat_example response_event =
     [[(''role'', ''assistant''),
       (''content'', high_voltage
          @ '' **Tool Response from send_message**\<newline>```json\<newline>ok\<newline>```'')]]"
  by (simp add: relay_event_def relay_part_def content_parts_def response_event_def fstr_name_def
        pformat_example_def dict_get_def)

lemma example_relay_final:
  "relay_event model_dump_example pformat_example final_event = []
   \<and> final_message final_event = [[(''role'', ''assistant''), (''content'', ''Here are three beaches.'')]]"
  by (simp add: relay_event_def relay_part_def content_parts_def final_event_def
        final_message_def final_response_text_def)

lemma example_finals:
  "\<not> is_final_response call_event" "\<not> is_final_response response_event"
  "is_final_response final_event"
  by (simp_all add: call_event_def response_event_def final_event_def)

text \<open>
  C4, as amended. For every stream of events, the messages that \<open>get_response_from_agent\<close>
  yields are, for each event up to and including the first final response, in order, what
  its parts yield: a part carrying a function call yields one dictionary with role
  \<open>assistant\<close> whose content announces the tool call by name; a part carrying a
  function response (and no function call) yields one dictionary with role
  \<open>assistant\<close> whose content announces the tool response by name; any other part
  yields nothing. At the final response the concatenated text of its parts, when not
  empty, is yielded as one assistant message, and nothing of the events after it is
  yielded. (Without a final response every event is relayed, and the stream's end decides
  what follows, see C5.)
\<close>

theorem get_response_relays:
  assumes "run_async message = (events, ending)"
  shows "fst (get_response_from_agent run_async model_dump pformat message history out) =
           (case dropWhile (\<lambda>ev. \<not> is_final_response ev) events of
              final # after \<Rightarrow>
                concat (map (relay_event model_dump pformat)
                            (takeWhile (\<lambda>ev. \<not> is_final_response ev) events))
                @ relay_event model_dump pformat final @ final_message final
            | [] \<Rightarrow>
                concat (map (relay_event model_dump pformat) events)
                @ (case ending of
                     None \<Rightarrow> []
                   | Some e \<Rightarrow> if isinstance_Exception e then [error_notice] else []))
         \<and> (\<forall>event. relay_event model_dump pformat event
                      = concat (map (relay_part model_dump pformat) (content_parts event)))
         \<and> (\<forall>part fc. function_call part = Some fc \<longrightarrow>
               (\<exists>body. relay_part model_dump pformat part =
                  [[(''role'', ''assistant''),
                    (''content'', hammer_and_wrench @ '' **Tool Call: '' @ fstr_name (fc_name fc)
                                  @ ''**\<newline>'' @ body)]]))
         \<and> (\<forall>part fr. function_call part = None \<and> function_response part = Some fr \<longrightarrow>
               (\<exists>body. relay_part model_dump pformat part =
                  [[(''role'', ''assistant''),
                    (''content'', high_voltage @ '' **Tool Response from '' @ fstr_name (fr_name fr)
                                  @ ''**\<newline>'' @ body)]]))
         \<and> (\<forall>part. function_call part = None \<and> function_response part = None \<longrightarrow>
               relay_part model_dump pformat part = [])
         \<and> (\<forall>event. content_parts event \<noteq> [] \<longrightarrow>
               final_message event =
                 (if joined_text (content_parts event) \<noteq> [] then
                    [[(''role'', ''assistant''), (''content'', joined_text (content_parts event))]]
                  else []))"
proof -
  have 1: "fst (get_response_from_agent run_async model_dump pformat message history out) =
           (case dropWhile (\<lambda>ev. \<not> is_final_response ev) events of
              final # after \<Rightarrow>
                concat (map (relay_event model_dump pformat)
                            (takeWhile (\<lambda>ev. \<not> is_final_response ev) events))
                @ relay_event model_dump pformat final @ final_message final
            | [] \<Rightarrow>
                concat (map (relay_event model_dump pformat) events)
                @ (case ending of
                     None \<Rightarrow> []
                   | Some e \<Rightarrow> if isinstance_Exception e then [error_notice] else []))"
  proof (cases "dropWhile (\<lambda>ev. \<not> is_final_response ev) events")
    case Nil
    with assms show ?thesis
      by (simp add: get_response_yields relay_events_spec del: dropWhile_eq_Nil_conv)
  next
    case (Cons final after)
    with assms show ?thesis
      by (simp add: get_response_yields relay_events_spec del: dropWhile_eq_Nil_conv)
  qed
  have 3: "\<exists>body. relay_part model_dump pformat part =
                  [[(''role'', ''assistant''),
                    (''content'', hammer_and_wrench @ '' **Tool Call: '' @ fstr_name (fc_name fc)
                                  @ ''**\<newline>'' @ body)]]"
    if "function_call part = Some fc" for part fc
    using relay_part_call [OF that] by blast
  from 1 3 relay_event_parts relay_part_response relay_part_other final_message_text
  show ?thesis by (intro conjI allI impI) auto
qed

theorem get_response_relays_witness:
  "run_example ''Find a beach'' = ([call_event, response_event, final_event, call_event], None)
   \<and> fst (get_response_from_agent run_example model_dump_example pformat_example
            ''Find a beach'' [] [])
       = [[(''role'', ''assistant''),
           (''content'', hammer_and_wrench
              @ '' **Tool Call: send_message**\<newline>```python\<newline>{...}\<newline>```'')],
          [(''role'', ''assistant''),
           (''content'', high_voltage
              @ '' **Tool Response from send_message**\<newline>```json\<newline>ok\<newline>```'')],
          [(''role'', ''assistant''), (''content'', ''Here are three beaches.'')]]"
proof -
  have r: "run_example ''Find a beach'' = ([call_event, response_event, final_event, call_event], None)"
    by (simp add: run_example_def)
  from get_response_relays [where run_async = run_example and message = "''Find a beach''"
      and model_dump = model_dump_example and pformat = pformat_example
      and history = "[]" and out = "[]", OF r]
  have "fst (get_response_from_agent run_example model_dump_example pformat_example
            ''Find a beach'' [] [])
        = (case dropWhile (\<lambda>ev. \<not> is_final_response ev)
                  [call_event, response_event, final_event, call_event] of
              final # after \<Rightarrow>
                concat (map (relay_event model_dump_example pformat_example)
                            (takeWhile (\<lambda>ev. \<not> is_final_response ev)
                               [call_event, response_event, final_event, call_event]))
                @ relay_event model_dump_example pformat_example final @ final_message final
            | [] \<Rightarrow>
                concat (map (relay_event model_dump_example pformat_example)
                          [call_event, response_event, final_event, call_event])
                @ (case None of
                     None \<Rightarrow> []
                   | Some e \<Rightarrow> if isinstance_Exception e then [error_notice] else []))"
    by (rule conjunct1)
  then show ?thesis
    using r by (simp add: example_finals example_relay_call example_relay_response example_relay_final)
qed

text \<open>
  C4 as stated fails: a part that carries a function call and a function response yields
  the announcement of the tool call only; no announcement of the tool response is yielded.
\<close>

theorem get_response_relays_counterexample:
  "run_both ''Find a beach'' = ([both_event], None)
   \<and> content_parts both_event = [both_part]
   \<and> function_response both_part
       = Some \<lparr>fr_name = Some ''send_message'', fr_response = PDict [(''response'', PStr ''ok'')]\<rparr>
   \<and> fst (get_response_from_agent run_both model_dump_example pformat_example
            ''Find a beach'' [] [])
       = [[(''role'', ''assistant''),
           (''content'', hammer_and_wrench
              @ '' **Tool Call: send_message**\<newline>```python\<newline>{...}\<newline>```'')]]"
  by (simp add: get_response_from_agent_def run_both_def both_event_def both_part_def
        relay_event_def relay_part_def content_parts_def fstr_name_def final_message_def
        model_dump_example_def pformat_example_def)

text \<open>
  C5, as amended. If the run raises an exception that is an instance of \<open>Exception\<close>
  (before any event, or after events none of which is a final response), the generator
  catches it, prints it and its traceback, yields, after the messages of the events
  received, exactly one dictionary with role \<open>assistant\<close> and the fixed error
  notice, and ends without raising.
\<close>

theorem get_response_error:
  assumes "run_async message = (events, Some e)"
    and "\<forall>ev\<in>set events. \<not> is_final_response ev"
    and "isinstance_Exception e"
  shows "get_response_from_agent run_async model_dump pformat message history out =
           (concat (map (relay_event model_dump pformat) events) @ [error_notice], None,
            out @ [Print [PStr (''Error in get_response_from_agent (Type: '' @ type_str e
                                @ ''): '' @ exn_str e)],
                   PrintExc e])
         \<and> error_notice =
             [(''role'', ''assistant''),
              (''content'', ''An error occurred while processing your request. Please check the server logs for details.'')]"
proof -
  from assms(2) have "dropWhile (\<lambda>ev. \<not> is_final_response ev) events = []" by simp
  then have "relay_events model_dump pformat events (Some e)
               = (concat (map (relay_event model_dump pformat) events), Some e)"
    by (simp add: relay_events_spec del: dropWhile_eq_Nil_conv)
  with assms(1,3) show ?thesis
    by (simp add: get_response_from_agent_def error_notice_def)
qed

theorem get_response_error_witness:
  "run_failing ''Book it'' = ([call_event], Some (ValueError ''Agent booking_agent not found''))
   \<and> \<not> is_final_response call_event
   \<and> isinstance_Exception (ValueError ''Agent booking_agent not found'')
   \<and> get_response_from_agent run_failing model_dump_example pformat_example ''Book it'' [] []
       = ([[(''role'', ''assistant''),
            (''content'', hammer_and_wrench
               @ '' **Tool Call: send_message**\<newline>```python\<newline>{...}\<newline>```'')],
           error_notice],
          None,
          [Print [PStr (''Error in get_response_from_agent (Type: <class '' @ [CHR 0x27]
                        @ ''ValueError'' @ [CHR 0x27] @ ''>): Agent booking_agent not found'')],
           PrintExc (ValueError ''Agent booking_agent not found'')])"
proof -
  have r: "run_failing ''Book it'' = ([call_event], Some (ValueError ''Agent booking_agent not found''))"
    by (simp add: run_failing_def)
  have f: "\<forall>ev\<in>set [call_event]. \<not> is_final_response ev"
    by (simp add: example_finals)
  have i: "isinstance_Exception (ValueError ''Agent booking_agent not found'')"
    by simp
  from get_response_error [where run_async = run_failing and message = "''Book it''"
      and model_dump = model_dump_example and pformat = pformat_example
      and history = "[]" and out = "[]", OF r f i]
  show ?thesis
    using r i by (simp add: example_finals example_relay_call type_str_def)
qed

text \<open>
  C5 as stated fails for an exception outside \<open>Exception\<close>: when the run is
  cancelled after a tool call, \<open>asyncio.CancelledError\<close> leaves the generator;
  nothing is printed and no error notice is yielded.
\<close>

theorem get_response_error_counterexample:
  "run_cancelled ''Book it''
     = ([call_event], Some (Lib (LibBaseException ''asyncio.CancelledError'' [])))
   \<and> get_response_from_agent run_cancelled model_dump_example pformat_example ''Book it'' [] []
       = ([[(''role'', ''assistant''),
            (''content'', hammer_and_wrench
               @ '' **Tool Call: send_message**\<newline>```python\<newline>{...}\<newline>```'')]],
          Some (Lib (LibBaseException ''asyncio.CancelledError'' [])),
          [])"
  by (simp add: get_response_from_agent_def run_cancelled_def example_finals example_relay_call)

subsection \<open>The message payload\<close>

text \<open>
  C10. For every text, task id and context id, the payload is a dictionary with the single
  key \<open>message\<close>; the message has role \<open>user\<close>, exactly one part, of type \<open>text\<close>,
  carrying the given text, and a \<open>messageId\<close>; it has a \<open>taskId\<close> key exactly when
  \<open>task_id\<close> is truthy, and then its value is \<open>task_id\<close>; likewise \<open>contextId\<close>
  and \<open>context_id\<close>.
\<close>

theorem create_send_message_payload_shape:
  "\<exists>message.
     create_send_message_payload text task_id context_id uuid_hex = [(''message'', PDict message)]
     \<and> dict_get message ''role'' = Some (PStr ''user'')
     \<and> dict_get message ''parts'' = Some (PList [PDict [(''type'', PStr ''text''), (''text'', text)]])
     \<and> dict_get message ''messageId'' = Some (PStr uuid_hex)
     \<and> dict_in ''taskId'' message = truthy task_id
     \<and> dict_get message ''taskId'' = (if truthy task_id then Some task_id else None)
     \<and> dict_in ''contextId'' message = truthy context_id
     \<and> dict_get message ''contextId'' = (if truthy context_id then Some context_id else None)"
  by (simp add: create_send_message_payload_def Let_def dict_in_iff dict_get_dict_set)
    (simp add: dict_get_def)

end
